theory Spec2Isabelle
  imports Main
begin

section \<open>Contracts\<close>

text \<open>
  The interfaces of the contracts module that the local plugin touches. Optional members
  (\<open>name?: string\<close>) are \<open>option\<close> fields; \<open>undefined\<close> and \<open>null\<close> are \<open>None\<close>.
  Error values are JavaScript exceptions: an \<open>Error\<close> with its message, or the
  \<open>TypeError\<close> the runtime raises when a property of \<open>undefined\<close> is read.
\<close>

datatype error = Error string | TypeError string

record after_deployed_operation =
  operation_type :: "string option"

record deploy_target_mapping =
  mapping_source :: string
  mapping_target :: string

record deploy_target =
  deployed :: "after_deployed_operation list option"
  description :: "string option"
  mappings :: "deploy_target_mapping list option"
  name :: "string option"
  sortOrder :: int
  target_type :: "string option"

text \<open>\<open>DeployTargetLocal\<close> of the local plugin: a target with \<open>dir?\<close> and \<open>empty?\<close>.\<close>

record deploy_target_local = deploy_target +
  dir :: "string option"
  empty :: "bool option"

text \<open>\<open>BeforeDeployFileEventArguments\<close>: destination, file, target.\<close>

record before_deploy_file_event_arguments =
  bd_destination :: string
  bd_file :: string
  bd_target :: deploy_target_local

text \<open>\<open>FileDeployedCompletedEventArguments\<close>: canceled?, error?, file, target.\<close>

record file_deployed_completed_event_arguments =
  fc_canceled :: "bool option"
  fc_error :: "error option"
  fc_file :: string
  fc_target :: deploy_target_local

text \<open>\<open>WorkspaceDeployedEventArguments\<close>: canceled?, error?, target.\<close>

record workspace_deployed_event_arguments =
  wc_canceled :: "bool option"
  wc_error :: "error option"
  wc_target :: deploy_target_local

text \<open>
  A "before deploy" handler is a caller-supplied function; the plugin wraps its call in
  \<open>try\<close>/\<open>catch\<close>, so what matters of it is whether it returns (\<open>None\<close>) or throws
  (\<open>Some e\<close>) on the arguments it is given. The same holds of the completion handlers:
  the plugin calls them with no \<open>try\<close> of their own, and any of them may throw.
\<close>

type_synonym before_deploy_file_event_handler =
  "before_deploy_file_event_arguments \<Rightarrow> error option"

type_synonym file_deployed_completed_event_handler =
  "file_deployed_completed_event_arguments \<Rightarrow> error option"

type_synonym workspace_deployed_event_handler =
  "workspace_deployed_event_arguments \<Rightarrow> error option"

text \<open>\<open>DeployFileOptions\<close>, with the \<open>baseDirectory\<close> member that \<open>deployFile\<close> reads.\<close>

record deploy_file_options =
  baseDirectory :: "string option"
  onBeforeDeploy :: "before_deploy_file_event_handler option"
  onCompleted :: "file_deployed_completed_event_handler option"

text \<open>\<open>DeployWorkspaceOptions\<close>; its \<open>onCompleted\<close> is the workspace-level handler.\<close>

record deploy_workspace_options =
  onBeforeDeployFile :: "before_deploy_file_event_handler option"
  onCompleted_workspace :: "workspace_deployed_event_handler option"
  onFileCompleted :: "file_deployed_completed_event_handler option"

section \<open>The world around the plugin\<close>

text \<open>
  What a run does is recorded as the list of its observable events, in the order they
  happen: calls into the file system (\<open>FS.exists\<close>, \<open>FSExtra.mkdirs\<close>, \<open>FSExtra.copy\<close>,
  \<open>FSExtra.emptyDir\<close>), writes to the output channel, calls of the caller's handlers,
  each entry into the plugin's local closure \<open>completed\<close> (the terminal outcome, whether
  or not a handler is there to receive it), the hand-over to the base class, and the end
  of the synchronous call: \<open>Return\<close> when the method returns to its caller, \<open>Throw\<close> when
  an exception leaves the running function. Events after \<open>Return\<close> happen inside the
  callbacks of the file-system operations, which Node runs after the call that started
  them has returned.
\<close>

datatype event =
    FsExists string
  | FsMkdirs string
  | FsCopy string string
  | FsEmptyDir string
  | Append string
  | AppendLine string
  | OnBeforeDeploy before_deploy_file_event_arguments
  | Completed file_deployed_completed_event_arguments
  | OnCompleted file_deployed_completed_event_arguments
  | WorkspaceCompleted workspace_deployed_event_arguments
  | OnWorkspaceCompleted workspace_deployed_event_arguments
  | SuperDeployWorkspace "string list" deploy_target_local
  | Return
  | Throw error

text \<open>
  \<open>FSExtra.copy\<close> either throws while it is being called, or reports through its
  callback, an error or nothing: while it is still being called (fs-extra reports some
  failures at once), or later.
\<close>

datatype copy_result = CopyThrows error | CopySync "error option" | CopyCallback "error option"

text \<open>
  Everything the plugin asks of its surroundings in one run: the workspace root of the
  editor (\<open>undefined\<close> when no folder is open), the cancellation flag of the deploy context, the path-mapping helper
  \<open>toRelativeTargetPath\<close> of the helpers module (\<open>None\<close> is its result \<open>false\<close>), the
  operations of Node's \<open>path\<close> module (they depend on the platform), the answers of the
  file system, and the base class's \<open>deployWorkspace\<close>, which yields the events up to
  its return and the events of its later callbacks.
\<close>

record environment =
  rootPath :: "string option"
  isCancelling :: bool
  toRelativeTargetPath :: "string \<Rightarrow> deploy_target_local \<Rightarrow> string option \<Rightarrow> string option"
  path_isAbsolute :: "string \<Rightarrow> bool"
  path_join :: "string \<Rightarrow> string \<Rightarrow> string"
  path_dirname :: "string \<Rightarrow> string"
  fs_exists :: "string \<Rightarrow> bool"
  fs_mkdirs :: "string \<Rightarrow> error option"
  fs_copy :: "string \<Rightarrow> string \<Rightarrow> copy_result"
  fs_emptyDir :: "string \<Rightarrow> error option"
  super_deployWorkspace ::
    "string list \<Rightarrow> deploy_target_local \<Rightarrow> deploy_workspace_options option
      \<Rightarrow> event list \<times> event list"

section \<open>Helpers\<close>

text \<open>
  Modelled from the spec: \<open>toStringSafe\<close> of the helpers module, which is not among the
  sources. The spec has \<open>target.dir\<close> default to \<open>./\<close> "when absent or empty" through the
  test \<open>!dir\<close> on its result, so an absent string is coerced to the empty string and a
  present one is kept.
\<close>

definition toStringSafe :: "string option \<Rightarrow> string" where
  "toStringSafe str = (case str of None \<Rightarrow> [] | Some s \<Rightarrow> s)"

text \<open>
  Modelled from the spec: \<open>toBooleanSafe\<close> of the helpers module, which is not among the
  sources: the value when it is there, the default otherwise.
\<close>

definition toBooleanSafe :: "bool option \<Rightarrow> bool \<Rightarrow> bool" where
  "toBooleanSafe val defaultValue = (case val of None \<Rightarrow> defaultValue | Some b \<Rightarrow> b)"

text \<open>The string of an error value, as string coercion of a JavaScript error gives it.\<close>

fun error_toString :: "error \<Rightarrow> string" where
  "error_toString (Error msg) = ''Error: '' @ msg"
| "error_toString (TypeError msg) = ''TypeError: '' @ msg"

section \<open>The local plugin\<close>

text \<open>
  \<open>Path.join(vscode.workspace.rootPath, dir)\<close>: with no folder open the workspace root
  is \<open>undefined\<close> and Node's \<open>join\<close> raises a \<open>TypeError\<close>.
\<close>

definition undefined_rootPath :: error where
  "undefined_rootPath = TypeError ''Path must be a string. Received undefined''"

definition join_rootPath :: "environment \<Rightarrow> string \<Rightarrow> error + string" where
  "join_rootPath env d =
     (case rootPath env of
        None \<Rightarrow> Inl undefined_rootPath
      | Some root \<Rightarrow> Inr (path_join env root d))"

definition getFullDirPathFromTarget :: "environment \<Rightarrow> deploy_target_local \<Rightarrow> error + string" where
  "getFullDirPathFromTarget env target =
     (let d = toStringSafe (dir target);
          d = (if d = [] then ''./'' else d)
      in if \<not> path_isAbsolute env d then join_rootPath env d else Inr d)"

text \<open>
  A piece of a run is its events and the exception that leaves it, if any. An exception
  that leaves a callback ends the run there; at the end of the synchronous call the
  method either returns or lets the exception out.
\<close>

definition prepend :: "event list \<Rightarrow> event list \<times> error option \<Rightarrow> event list \<times> error option" where
  "prepend evs r = (evs @ fst r, snd r)"

definition leaving :: "event list \<times> error option \<Rightarrow> event list" where
  "leaving r = fst r @ (case snd r of None \<Rightarrow> [] | Some e \<Rightarrow> [Throw e])"

definition returning :: "event list \<times> error option \<Rightarrow> event list" where
  "returning r = fst r @ [case snd r of None \<Rightarrow> Return | Some e \<Rightarrow> Throw e]"

text \<open>
  The closure \<open>completed\<close> of \<open>deployFile\<close>: the handler is called when there is one,
  with no \<open>try\<close> around it, so what it throws leaves the closure.
\<close>

definition deployFile_completed ::
  "deploy_file_options \<Rightarrow> string \<Rightarrow> deploy_target_local \<Rightarrow> error option \<Rightarrow> bool option
    \<Rightarrow> event list \<times> error option" where
  "deployFile_completed opts file target err canceled =
     (let e = \<lparr>fc_canceled = canceled, fc_error = err, fc_file = file, fc_target = target\<rparr>
      in case onCompleted opts of
           None \<Rightarrow> ([Completed e], None)
         | Some h \<Rightarrow> ([Completed e, OnCompleted e], h e))"

text \<open>
  The inner closure \<open>deployFile\<close>. The handler and the call of the copy are inside the
  \<open>try\<close>: whatever they throw is handed to \<open>completed\<close> by the \<open>catch\<close>. That holds
  also for a callback the copy fires while it is being called: an exception of
  \<open>onCompleted\<close> inside it is caught and \<open>completed\<close> runs again. A callback fired
  later runs outside the \<open>try\<close>.
\<close>

definition deployFile_deployFile ::
  "environment \<Rightarrow> deploy_file_options \<Rightarrow> string \<Rightarrow> deploy_target_local \<Rightarrow> string \<Rightarrow> string
    \<Rightarrow> event list \<times> error option" where
  "deployFile_deployFile env opts file target targetFile targetDirectory =
     (let args = \<lparr>bd_destination = targetDirectory, bd_file = file, bd_target = target\<rparr>;
          hook = (case onBeforeDeploy opts of
                    None \<Rightarrow> ([], None)
                  | Some h \<Rightarrow> ([OnBeforeDeploy args], h args))
      in case snd hook of
           Some e \<Rightarrow> prepend (fst hook) (deployFile_completed opts file target (Some e) None)
         | None \<Rightarrow>
             prepend (fst hook @ [FsCopy file targetFile])
               (case fs_copy env file targetFile of
                  CopyThrows e \<Rightarrow> deployFile_completed opts file target (Some e) None
                | CopySync err \<Rightarrow>
                    (case snd (deployFile_completed opts file target err None) of
                       None \<Rightarrow> deployFile_completed opts file target err None
                     | Some e \<Rightarrow>
                         prepend (fst (deployFile_completed opts file target err None))
                           (deployFile_completed opts file target (Some e) None))
                | CopyCallback err \<Rightarrow> deployFile_completed opts file target err None))"

definition mapping_error :: "string \<Rightarrow> error" where
  "mapping_error file =
     Error (''Could not get relative path for '' @ [CHR 0x27] @ file @ [CHR 0x27] @ ''!'')"

text \<open>\<open>if (!opts) { opts = {}; }\<close>: omitted options are the empty object.\<close>

definition deployFile_opts :: "deploy_file_options option \<Rightarrow> deploy_file_options" where
  "deployFile_opts opts =
     (case opts of
        None \<Rightarrow> \<lparr>baseDirectory = None, onBeforeDeploy = None, onCompleted = None\<rparr>
      | Some given \<Rightarrow> given)"

text \<open>
  \<open>deployFile\<close>. The destination root is computed first, before the cancellation
  check: when that raises, the exception leaves the call and nothing else happens.
\<close>

definition deployFile ::
  "environment \<Rightarrow> string \<Rightarrow> deploy_target_local \<Rightarrow> deploy_file_options option \<Rightarrow> event list" where
  "deployFile env file target opts0 =
     (let opts = deployFile_opts opts0
      in case getFullDirPathFromTarget env target of
           Inl e \<Rightarrow> [Throw e]
         | Inr d \<Rightarrow>
             if isCancelling env
             then returning (deployFile_completed opts file target None (Some True))
             else case toRelativeTargetPath env file target (baseDirectory opts) of
               None \<Rightarrow>
                 returning (deployFile_completed opts file target (Some (mapping_error file)) None)
             | Some relativeTargetFilePath \<Rightarrow>
                 (let targetFile = path_join env d relativeTargetFilePath;
                      targetDirectory = path_dirname env targetFile
                  in FsExists targetDirectory # Return #
                       (if fs_exists env targetDirectory
                        then leaving (deployFile_deployFile env opts file target targetFile
                                        targetDirectory)
                        else FsMkdirs targetDirectory #
                          (case fs_mkdirs env targetDirectory of
                             Some err \<Rightarrow>
                               leaving (deployFile_completed opts file target (Some err) None)
                           | None \<Rightarrow>
                               leaving (deployFile_deployFile env opts file target targetFile
                                          targetDirectory)))))"

text \<open>
  The first lines of \<open>deployWorkspace\<close>: the destination root, computed in place.
\<close>

definition deployWorkspace_targetDir :: "environment \<Rightarrow> deploy_target_local \<Rightarrow> error + string" where
  "deployWorkspace_targetDir env target =
     (let targetDir = toStringSafe (dir target)
      in if \<not> path_isAbsolute env targetDir then join_rootPath env targetDir
         else Inr targetDir)"

text \<open>
  The closure \<open>completed\<close> of \<open>deployWorkspace\<close>. Nothing replaces omitted options
  here, so \<open>opts.onCompleted\<close> on \<open>undefined\<close> raises the runtime's \<open>TypeError\<close>.
\<close>

definition undefined_onCompleted :: error where
  "undefined_onCompleted =
     TypeError (''Cannot read property '' @ [CHR 0x27] @ ''onCompleted'' @ [CHR 0x27]
                @ '' of undefined'')"

definition deployWorkspace_completed ::
  "deploy_workspace_options option \<Rightarrow> deploy_target_local \<Rightarrow> error option \<Rightarrow> bool option
    \<Rightarrow> event list \<times> error option" where
  "deployWorkspace_completed opts target err canceled =
     (let e = \<lparr>wc_canceled = canceled, wc_error = err, wc_target = target\<rparr>
      in case opts of
           None \<Rightarrow> ([WorkspaceCompleted e], Some undefined_onCompleted)
         | Some given \<Rightarrow>
             (case onCompleted_workspace given of
                None \<Rightarrow> ([WorkspaceCompleted e], None)
              | Some h \<Rightarrow> ([WorkspaceCompleted e, OnWorkspaceCompleted e], h e)))"

text \<open>The closure \<open>startDeploying\<close>: the base class takes over, with the same arguments.\<close>

definition startDeploying ::
  "environment \<Rightarrow> string list \<Rightarrow> deploy_target_local \<Rightarrow> deploy_workspace_options option
    \<Rightarrow> event list \<times> event list" where
  "startDeploying env files target opts =
     (let r = super_deployWorkspace env files target opts
      in (SuperDeployWorkspace files target # fst r, snd r))"

definition empty_message :: "string \<Rightarrow> string" where
  "empty_message targetDir =
     ''Empty LOCAL target directory '' @ [CHR 0x27] @ targetDir @ [CHR 0x27] @ ''... ''"

definition failed_message :: "error \<Rightarrow> string" where
  "failed_message err = ''[FAILED: '' @ error_toString err @ '']''"

definition deployWorkspace ::
  "environment \<Rightarrow> string list \<Rightarrow> deploy_target_local \<Rightarrow> deploy_workspace_options option
    \<Rightarrow> event list" where
  "deployWorkspace env files target opts =
     (case deployWorkspace_targetDir env target of
        Inl e \<Rightarrow> [Throw e]
      | Inr targetDir \<Rightarrow>
          if isCancelling env
          then returning (deployWorkspace_completed opts target None (Some True))
          else if toBooleanSafe (empty target) False then
            Append (empty_message targetDir) # FsEmptyDir targetDir # Return #
              (case fs_emptyDir env targetDir of
                 Some err \<Rightarrow>
                   Append (failed_message err) #
                     leaving (deployWorkspace_completed opts target (Some err) None)
               | None \<Rightarrow>
                   AppendLine ''[OK]'' #
                     (let s = startDeploying env files target opts in fst s @ snd s))
          else (let s = startDeploying env files target opts in fst s @ Return # snd s))"

section \<open>Reading a run\<close>

text \<open>
  The terminal outcomes of a run (the entries into the closure \<open>completed\<close>), and the
  calls of the completion handler.
\<close>

fun completions :: "event list \<Rightarrow> file_deployed_completed_event_arguments list" where
  "completions [] = []"
| "completions (Completed a # t) = a # completions t"
| "completions (e # t) = completions t"

fun notifications :: "event list \<Rightarrow> file_deployed_completed_event_arguments list" where
  "notifications [] = []"
| "notifications (OnCompleted a # t) = a # notifications t"
| "notifications (e # t) = notifications t"

fun workspace_completions :: "event list \<Rightarrow> workspace_deployed_event_arguments list" where
  "workspace_completions [] = []"
| "workspace_completions (WorkspaceCompleted a # t) = a # workspace_completions t"
| "workspace_completions (e # t) = workspace_completions t"

text \<open>The kinds of event the properties speak of.\<close>

fun is_fs :: "event \<Rightarrow> bool" where
  "is_fs (FsExists p) = True"
| "is_fs (FsMkdirs p) = True"
| "is_fs (FsCopy a b) = True"
| "is_fs (FsEmptyDir p) = True"
| "is_fs e = False"

fun is_OnBeforeDeploy :: "event \<Rightarrow> bool" where
  "is_OnBeforeDeploy (OnBeforeDeploy a) = True"
| "is_OnBeforeDeploy e = False"

fun is_FsCopy :: "event \<Rightarrow> bool" where
  "is_FsCopy (FsCopy a b) = True"
| "is_FsCopy e = False"

fun is_Completed :: "event \<Rightarrow> bool" where
  "is_Completed (Completed a) = True"
| "is_Completed e = False"

fun is_OnCompleted :: "event \<Rightarrow> bool" where
  "is_OnCompleted (OnCompleted a) = True"
| "is_OnCompleted e = False"

fun is_Throw :: "event \<Rightarrow> bool" where
  "is_Throw (Throw e) = True"
| "is_Throw e = False"

fun is_SuperDeployWorkspace :: "event \<Rightarrow> bool" where
  "is_SuperDeployWorkspace (SuperDeployWorkspace fs t) = True"
| "is_SuperDeployWorkspace e = False"

text \<open>
  \<open>precedes P Q t\<close>: in the run \<open>t\<close>, every event of kind \<open>Q\<close> comes strictly after some
  event of kind \<open>P\<close>.
\<close>

fun precedes :: "(event \<Rightarrow> bool) \<Rightarrow> (event \<Rightarrow> bool) \<Rightarrow> event list \<Rightarrow> bool" where
  "precedes P Q [] = True"
| "precedes P Q (e # t) = (\<not> Q e \<and> (P e \<or> precedes P Q t))"

section \<open>Node's path module, POSIX rules\<close>

text \<open>
  The plugin leaves path arithmetic to Node's \<open>path\<close> module. Its POSIX variant,
  following the algorithm of the Node sources: \<open>join\<close> glues the non-empty arguments
  with a slash and normalizes; \<open>normalize\<close> drops empty and \<open>.\<close> segments, lets a
  \<open>..\<close> remove the segment before it (above the start of a relative path it stays),
  and keeps a leading and a trailing slash.
\<close>

fun split_slash :: "string \<Rightarrow> string list" where
  "split_slash [] = [[]]"
| "split_slash (c # cs) =
     (if c = CHR ''/'' then [] # split_slash cs
      else (case split_slash cs of
              [] \<Rightarrow> [[c]]
            | s # ss \<Rightarrow> (c # s) # ss))"

fun normalize_segments :: "bool \<Rightarrow> string list \<Rightarrow> string list \<Rightarrow> string list" where
  "normalize_segments allowAboveRoot res [] = rev res"
| "normalize_segments allowAboveRoot res (s # ss) =
     (if s = [] \<or> s = ''.'' then normalize_segments allowAboveRoot res ss
      else if s = ''..'' then
        (case res of
           [] \<Rightarrow>
             if allowAboveRoot then normalize_segments allowAboveRoot [''..''] ss
             else normalize_segments allowAboveRoot [] ss
         | r # rs \<Rightarrow>
             if r \<noteq> ''..'' then normalize_segments allowAboveRoot rs ss
             else if allowAboveRoot then normalize_segments allowAboveRoot (''..'' # res) ss
             else normalize_segments allowAboveRoot res ss)
      else normalize_segments allowAboveRoot (s # res) ss)"

fun join_slash :: "string list \<Rightarrow> string" where
  "join_slash [] = []"
| "join_slash [s] = s"
| "join_slash (s # ss) = s @ ''/'' @ join_slash ss"

definition posix_isAbsolute :: "string \<Rightarrow> bool" where
  "posix_isAbsolute path = (case path of [] \<Rightarrow> False | c # cs \<Rightarrow> c = CHR ''/'')"

definition posix_normalize :: "string \<Rightarrow> string" where
  "posix_normalize path =
     (if path = [] then ''.''
      else
        (let isAbsolute = posix_isAbsolute path;
             trailingSeparator = (last path = CHR ''/'');
             p = join_slash (normalize_segments (\<not> isAbsolute) [] (split_slash path))
         in if p = [] then (if isAbsolute then ''/'' else if trailingSeparator then ''./'' else ''.'')
            else (if isAbsolute then ''/'' else []) @ p @ (if trailingSeparator then ''/'' else [])))"

definition posix_join :: "string \<Rightarrow> string \<Rightarrow> string" where
  "posix_join a b =
     (if a = [] \<and> b = [] then ''.''
      else if a = [] then posix_normalize b
      else if b = [] then posix_normalize a
      else posix_normalize (a @ ''/'' @ b))"

text \<open>
  \<open>dirname\<close> scans from the end, never looking at the first character: trailing slashes
  are skipped, then the last segment, and the path is cut at the slash before it.
\<close>

definition posix_dirname :: "string \<Rightarrow> string" where
  "posix_dirname path =
     (case path of
        [] \<Rightarrow> ''.''
      | c # cs \<Rightarrow>
          (let hasRoot = (c = CHR ''/'');
               r = dropWhile (\<lambda>x. x \<noteq> CHR ''/'') (dropWhile (\<lambda>x. x = CHR ''/'') (rev cs))
           in case r of
                [] \<Rightarrow> (if hasRoot then ''/'' else ''.'')
              | x # front \<Rightarrow>
                  if hasRoot \<and> front = [] then ''//'' else c # rev front))"

text \<open>A path with a slash at its end: the same directory, written as a directory.\<close>

definition with_trailing_slash :: "string \<Rightarrow> string" where
  "with_trailing_slash p = (if p \<noteq> [] \<and> last p = CHR ''/'' then p else p @ ''/'')"

section \<open>Sample runs\<close>

text \<open>
  Modelled from the spec: the path mapper \<open>toRelativeTargetPath\<close> of the helpers module,
  which is not among the sources, for a target without mappings: the file's path
  relative to the base directory (the workspace root when none is given), and failure
  when the file does not lie under it.
\<close>

definition sample_toRelativeTargetPath ::
  "string \<Rightarrow> string \<Rightarrow> deploy_target_local \<Rightarrow> string option \<Rightarrow> string option" where
  "sample_toRelativeTargetPath root file target given =
     (let base = (case given of None \<Rightarrow> root | Some b \<Rightarrow> b) @ ''/''
      in if take (length base) file = base then Some (drop (length base) file) else None)"

text \<open>
  A workspace at \<open>/ws\<close> on a POSIX system whose destination \<open>/tmp/dest\<close> exists, where
  every file-system call succeeds, the copy reports later, and the base class starts
  nothing.
\<close>

definition sample_env :: environment where
  "sample_env =
     \<lparr>rootPath = Some ''/ws'',
      isCancelling = False,
      toRelativeTargetPath = sample_toRelativeTargetPath ''/ws'',
      path_isAbsolute = posix_isAbsolute,
      path_join = posix_join,
      path_dirname = posix_dirname,
      fs_exists = (\<lambda>p. p = ''/tmp/dest''),
      fs_mkdirs = (\<lambda>p. None),
      fs_copy = (\<lambda>src dst. CopyCallback None),
      fs_emptyDir = (\<lambda>p. None),
      super_deployWorkspace = (\<lambda>files target opts. ([], []))\<rparr>"

definition sample_target :: deploy_target_local where
  "sample_target =
     \<lparr>deployed = None, description = None, mappings = None, name = Some ''local'',
      sortOrder = 0, target_type = Some ''local'',
      dir = Some ''/tmp/dest'', empty = None\<rparr>"

definition sample_options :: deploy_file_options where
  "sample_options =
     \<lparr>baseDirectory = Some ''proj'',
      onBeforeDeploy = Some (\<lambda>a. None),
      onCompleted = Some (\<lambda>a. None)\<rparr>"

definition sample_workspace_options :: deploy_workspace_options where
  "sample_workspace_options =
     \<lparr>onBeforeDeployFile = None,
      onCompleted_workspace = Some (\<lambda>a. None),
      onFileCompleted = None\<rparr>"

text \<open>Options whose completion handler throws.\<close>

definition throwing_options :: deploy_file_options where
  "throwing_options = sample_options\<lparr>onCompleted := Some (\<lambda>a. Some (Error ''boom''))\<rparr>"

definition throwing_workspace_options :: deploy_workspace_options where
  "throwing_workspace_options =
     sample_workspace_options\<lparr>onCompleted_workspace := Some (\<lambda>a. Some (Error ''boom''))\<rparr>"

text \<open>The same surroundings with a cancellation pending.\<close>

definition cancelling_env :: environment where
  "cancelling_env = sample_env\<lparr>isCancelling := True\<rparr>"

text \<open>The same surroundings with no folder open, and with a cancellation pending too.\<close>

definition rootless_env :: environment where
  "rootless_env = sample_env\<lparr>rootPath := None\<rparr>"

definition cancelling_rootless_env :: environment where
  "cancelling_rootless_env = rootless_env\<lparr>isCancelling := True\<rparr>"

text \<open>The same surroundings when the copy fires its callback while it is being called.\<close>

definition sync_copy_env :: environment where
  "sync_copy_env = sample_env\<lparr>fs_copy := (\<lambda>src dst. CopySync None)\<rparr>"

text \<open>The same surroundings when the destination directory is missing and cannot be made.\<close>

definition failing_mkdirs_env :: environment where
  "failing_mkdirs_env =
     sample_env\<lparr>fs_exists := (\<lambda>p. False), fs_mkdirs := (\<lambda>p. Some (Error ''EACCES''))\<rparr>"

text \<open>The same surroundings when the destination root cannot be emptied.\<close>

definition failing_emptyDir_env :: environment where
  "failing_emptyDir_env = sample_env\<lparr>fs_emptyDir := (\<lambda>p. Some (Error ''EPERM''))\<rparr>"

text \<open>The sample target with \<open>empty: true\<close>, and the sample target without \<open>dir\<close>.\<close>

definition emptying_target :: deploy_target_local where
  "emptying_target = sample_target\<lparr>empty := Some True\<rparr>"

definition plain_target :: deploy_target_local where
  "plain_target = sample_target\<lparr>dir := None\<rparr>"

section \<open>What the specification expects\<close>

text \<open>What the copy reports: the exception of its call, or the error of its callback.\<close>

definition copy_error :: "copy_result \<Rightarrow> error option" where
  "copy_error r =
     (case r of CopyThrows e \<Rightarrow> Some e | CopySync err \<Rightarrow> err | CopyCallback err \<Rightarrow> err)"

text \<open>
  The destination root in the specification's words: \<open>target.dir\<close>, \<open>./\<close> when it is
  absent or empty, resolved against the workspace root when it is not absolute.
\<close>

definition root_directory :: "environment \<Rightarrow> deploy_target_local \<Rightarrow> error + string" where
  "root_directory env target =
     (let d = (case dir target of
                 None \<Rightarrow> ''./''
               | Some s \<Rightarrow> if s = [] then ''./'' else s)
      in if path_isAbsolute env d then Inr d else join_rootPath env d)"

section \<open>Runs of deployFile\<close>

lemmas sample_defs =
  sample_env_def sample_target_def sample_options_def sample_workspace_options_def
  sample_toRelativeTargetPath_def cancelling_env_def failing_mkdirs_env_def
  failing_emptyDir_env_def emptying_target_def plain_target_def throwing_options_def
  throwing_workspace_options_def rootless_env_def cancelling_rootless_env_def sync_copy_env_def

lemmas posix_defs =
  posix_isAbsolute_def posix_join_def posix_normalize_def posix_dirname_def

lemmas run_defs =
  deployFile_def deployFile_deployFile_def deployFile_completed_def deployFile_opts_def
  getFullDirPathFromTarget_def join_rootPath_def toStringSafe_def prepend_def leaving_def
  returning_def Let_def

lemma completed_events:
  "deployFile_completed opts file target err canceled =
     (case onCompleted opts of
        None \<Rightarrow>
          ([Completed \<lparr>fc_canceled = canceled, fc_error = err, fc_file = file, fc_target = target\<rparr>],
           None)
      | Some h \<Rightarrow>
          ([Completed \<lparr>fc_canceled = canceled, fc_error = err, fc_file = file, fc_target = target\<rparr>,
            OnCompleted \<lparr>fc_canceled = canceled, fc_error = err, fc_file = file, fc_target = target\<rparr>],
           h \<lparr>fc_canceled = canceled, fc_error = err, fc_file = file, fc_target = target\<rparr>))"
  by (simp add: deployFile_completed_def Let_def split: option.split)

lemma deployFile_unresolved:
  "getFullDirPathFromTarget env target = Inl e \<Longrightarrow> deployFile env file target opts = [Throw e]"
  by (simp add: deployFile_def)

lemma deployFile_cancelling:
  "getFullDirPathFromTarget env target = Inr d \<Longrightarrow> isCancelling env \<Longrightarrow>
   deployFile env file target opts =
     returning (deployFile_completed (deployFile_opts opts) file target None (Some True))"
  by (simp add: deployFile_def)

lemma deployFile_unmapped:
  "getFullDirPathFromTarget env target = Inr d \<Longrightarrow> \<not> isCancelling env \<Longrightarrow>
   toRelativeTargetPath env file target (baseDirectory (deployFile_opts opts)) = None \<Longrightarrow>
   deployFile env file target opts =
     returning (deployFile_completed (deployFile_opts opts) file target
       (Some (mapping_error file)) None)"
  by (simp add: deployFile_def)

lemma deployFile_mapped:
  assumes "getFullDirPathFromTarget env target = Inr d"
    and "\<not> isCancelling env"
    and "toRelativeTargetPath env file target (baseDirectory (deployFile_opts opts)) = Some rel"
    and "targetFile = path_join env d rel"
    and "targetDirectory = path_dirname env targetFile"
  shows "deployFile env file target opts =
     FsExists targetDirectory # Return #
       (if fs_exists env targetDirectory
        then leaving (deployFile_deployFile env (deployFile_opts opts) file target targetFile
                        targetDirectory)
        else FsMkdirs targetDirectory #
          (case fs_mkdirs env targetDirectory of
             Some err \<Rightarrow>
               leaving (deployFile_completed (deployFile_opts opts) file target (Some err) None)
           | None \<Rightarrow>
               leaving (deployFile_deployFile env (deployFile_opts opts) file target targetFile
                          targetDirectory)))"
  using assms(1-3) unfolding deployFile_def Let_def assms(4,5) by simp

subsection \<open>One terminal outcome\<close>

text \<open>
  Claim C1. The claim asks for exactly one call of \<open>opts.onCompleted\<close> in every
  execution of \<open>deployFile\<close>. The code breaks it on two inputs. When the copy fires its
  callback while it is being called and the handler throws, the \<open>catch\<close> of the inner
  closure takes the handler's exception for a failure of the copy and calls
  \<open>completed\<close> again: the handler is invoked twice, with success and then with its
  own exception as the error. And with no folder open and a relative destination, the
  root is resolved before the closure \<open>completed\<close> exists: the \<open>TypeError\<close> leaves the
  call and the handler is never invoked.
\<close>

theorem deployFile_completes_twice:
  "notifications (deployFile sync_copy_env ''proj/readme.md'' sample_target (Some throwing_options)) =
     [\<lparr>fc_canceled = None, fc_error = None, fc_file = ''proj/readme.md'',
       fc_target = sample_target\<rparr>,
      \<lparr>fc_canceled = None, fc_error = Some (Error ''boom''), fc_file = ''proj/readme.md'',
       fc_target = sample_target\<rparr>]
   \<and> deployFile rootless_env ''proj/readme.md'' plain_target (Some sample_options) =
       [Throw undefined_rootPath]
   \<and> notifications (deployFile rootless_env ''proj/readme.md'' plain_target (Some sample_options))
       = []"
  by (simp add: run_defs sample_defs posix_defs)

subsection \<open>Cancellation before the start\<close>

text \<open>
  Claim C2, as amended. If \<open>context.isCancelling()\<close> is true when \<open>deployFile\<close> is
  entered, the run performs no file-system operation (no existence check, no directory
  creation, no copy) and does not call \<open>onBeforeDeploy\<close>. When the destination root
  resolves, the run reports exactly one completion, with \<open>canceled = true\<close> and no
  error, and the handler \<open>onCompleted\<close> that the options carry is invoked exactly once
  with it; the call then returns when the handler returns or is absent, and the
  handler's exception leaves the call when it throws.
\<close>

theorem deployFile_cancellation_short_circuit:
  assumes "isCancelling env"
  shows "(\<forall>e \<in> set (deployFile env file target opts). \<not> is_fs e \<and> \<not> is_OnBeforeDeploy e)
    \<and> (\<forall>d. getFullDirPathFromTarget env target = Inr d \<longrightarrow>
          completions (deployFile env file target opts) =
            [\<lparr>fc_canceled = Some True, fc_error = None, fc_file = file, fc_target = target\<rparr>]
          \<and> (\<forall>h. onCompleted (deployFile_opts opts) = Some h \<longrightarrow>
                deployFile env file target opts =
                  [Completed \<lparr>fc_canceled = Some True, fc_error = None, fc_file = file,
                     fc_target = target\<rparr>,
                   OnCompleted \<lparr>fc_canceled = Some True, fc_error = None, fc_file = file,
                     fc_target = target\<rparr>,
                   case h \<lparr>fc_canceled = Some True, fc_error = None, fc_file = file,
                           fc_target = target\<rparr> of
                     None \<Rightarrow> Return
                   | Some e \<Rightarrow> Throw e])
          \<and> (onCompleted (deployFile_opts opts) = None \<longrightarrow>
                deployFile env file target opts =
                  [Completed \<lparr>fc_canceled = Some True, fc_error = None, fc_file = file,
                     fc_target = target\<rparr>,
                   Return]))"
proof (cases "getFullDirPathFromTarget env target")
  case (Inl e)
  then show ?thesis by (simp add: deployFile_unresolved)
next
  case (Inr d)
  with assms show ?thesis
    by (auto simp add: deployFile_cancelling completed_events returning_def
        split: option.split)
qed

theorem deployFile_cancellation_short_circuit_witness:
  "isCancelling cancelling_env
   \<and> getFullDirPathFromTarget cancelling_env sample_target = Inr ''/tmp/dest''
   \<and> deployFile cancelling_env ''proj/readme.md'' sample_target (Some sample_options) =
       [Completed \<lparr>fc_canceled = Some True, fc_error = None, fc_file = ''proj/readme.md'',
          fc_target = sample_target\<rparr>,
        OnCompleted \<lparr>fc_canceled = Some True, fc_error = None, fc_file = ''proj/readme.md'',
          fc_target = sample_target\<rparr>,
        Return]"
proof -
  have c: "isCancelling cancelling_env"
    by (simp add: sample_defs)
  have d: "getFullDirPathFromTarget cancelling_env sample_target = Inr ''/tmp/dest''"
    by (simp add: sample_defs posix_defs getFullDirPathFromTarget_def toStringSafe_def)
  have h: "onCompleted (deployFile_opts (Some sample_options)) = Some (\<lambda>a. None)"
    by (simp add: deployFile_opts_def sample_defs)
  show ?thesis
    using c d h
      deployFile_cancellation_short_circuit
        [OF c, of "''proj/readme.md''" sample_target "Some sample_options"]
    by simp
qed

text \<open>
  Claim C2 as stated fails on two inputs. With no folder open and a target without
  \<open>dir\<close>, the root is resolved before the cancellation check, the \<open>TypeError\<close>
  leaves the call and no completion is reported. And a handler that throws is invoked
  with \<open>canceled = true\<close>, but its exception leaves the call in place of the return.
\<close>

theorem deployFile_cancellation_short_circuit_counterexample:
  "isCancelling cancelling_rootless_env
   \<and> deployFile cancelling_rootless_env ''proj/readme.md'' plain_target (Some sample_options) =
       [Throw undefined_rootPath]
   \<and> isCancelling cancelling_env
   \<and> deployFile cancelling_env ''proj/readme.md'' sample_target (Some throwing_options) =
       [Completed \<lparr>fc_canceled = Some True, fc_error = None, fc_file = ''proj/readme.md'',
          fc_target = sample_target\<rparr>,
        OnCompleted \<lparr>fc_canceled = Some True, fc_error = None, fc_file = ''proj/readme.md'',
          fc_target = sample_target\<rparr>,
        Throw (Error ''boom'')]"
  by (simp add: run_defs sample_defs posix_defs)

subsection \<open>Mapping failure\<close>

text \<open>
  Claim C4, as amended. For a file that the path-mapping helper cannot make relative to
  the base directory (it returns \<open>false\<close>), \<open>deployFile\<close> performs no file-system
  operation (so no directory is created and nothing is written) and does not call
  \<open>onBeforeDeploy\<close>. When the destination root resolves and no cancellation is pending,
  the run reports exactly one completion, which carries the mapping error, and the
  handler \<open>onCompleted\<close> that the options carry is invoked exactly once with it. The
  mapping error itself is never raised: the call returns when the handler returns or
  is absent, and only the handler's own exception leaves the call.
\<close>

theorem deployFile_mapping_failure:
  assumes "toRelativeTargetPath env file target (baseDirectory (deployFile_opts opts)) = None"
  shows "(\<forall>e \<in> set (deployFile env file target opts). \<not> is_fs e \<and> \<not> is_OnBeforeDeploy e)
    \<and> (\<forall>d. getFullDirPathFromTarget env target = Inr d \<and> \<not> isCancelling env \<longrightarrow>
          completions (deployFile env file target opts) =
            [\<lparr>fc_canceled = None, fc_error = Some (mapping_error file), fc_file = file,
              fc_target = target\<rparr>]
          \<and> (\<forall>h. onCompleted (deployFile_opts opts) = Some h \<longrightarrow>
                deployFile env file target opts =
                  [Completed \<lparr>fc_canceled = None, fc_error = Some (mapping_error file),
                     fc_file = file, fc_target = target\<rparr>,
                   OnCompleted \<lparr>fc_canceled = None, fc_error = Some (mapping_error file),
                     fc_file = file, fc_target = target\<rparr>,
                   case h \<lparr>fc_canceled = None, fc_error = Some (mapping_error file),
                           fc_file = file, fc_target = target\<rparr> of
                     None \<Rightarrow> Return
                   | Some e \<Rightarrow> Throw e])
          \<and> (onCompleted (deployFile_opts opts) = None \<longrightarrow>
                deployFile env file target opts =
                  [Completed \<lparr>fc_canceled = None, fc_error = Some (mapping_error file),
                     fc_file = file, fc_target = target\<rparr>,
                   Return]))"
proof (cases "getFullDirPathFromTarget env target")
  case (Inl e)
  then show ?thesis by (simp add: deployFile_unresolved)
next
  case (Inr d)
  show ?thesis
  proof (cases "isCancelling env")
    case True
    with Inr show ?thesis
      by (auto simp add: deployFile_cancelling completed_events returning_def
          split: option.split)
  next
    case False
    with Inr assms show ?thesis
      by (auto simp add: deployFile_unmapped completed_events returning_def
          split: option.split)
  qed
qed

theorem deployFile_mapping_failure_witness:
  "toRelativeTargetPath sample_env ''other/readme.md'' sample_target
        (baseDirectory (deployFile_opts (Some sample_options))) = None
   \<and> getFullDirPathFromTarget sample_env sample_target = Inr ''/tmp/dest''
   \<and> \<not> isCancelling sample_env
   \<and> deployFile sample_env ''other/readme.md'' sample_target (Some sample_options) =
       [Completed \<lparr>fc_canceled = None, fc_error = Some (mapping_error ''other/readme.md''),
          fc_file = ''other/readme.md'', fc_target = sample_target\<rparr>,
        OnCompleted \<lparr>fc_canceled = None, fc_error = Some (mapping_error ''other/readme.md''),
          fc_file = ''other/readme.md'', fc_target = sample_target\<rparr>,
        Return]"
proof -
  have live: "\<not> isCancelling sample_env"
    by (simp add: sample_defs)
  have unmapped: "toRelativeTargetPath sample_env ''other/readme.md'' sample_target
      (baseDirectory (deployFile_opts (Some sample_options))) = None"
    by (simp add: sample_defs deployFile_opts_def)
  have d: "getFullDirPathFromTarget sample_env sample_target = Inr ''/tmp/dest''"
    by (simp add: sample_defs posix_defs getFullDirPathFromTarget_def toStringSafe_def)
  have h: "onCompleted (deployFile_opts (Some sample_options)) = Some (\<lambda>a. None)"
    by (simp add: deployFile_opts_def sample_defs)
  show ?thesis
    using live unmapped d h deployFile_mapping_failure [OF unmapped]
    by simp
qed

text \<open>
  Claim C4 as stated fails on two inputs. A handler that throws is invoked with the
  mapping error, and its exception is raised past the call. And with no folder open and
  a target without \<open>dir\<close>, the \<open>TypeError\<close> of the root is raised past the call before
  the helper is consulted, with no completion.
\<close>

theorem deployFile_mapping_failure_counterexample:
  "toRelativeTargetPath sample_env ''other/readme.md'' sample_target
        (baseDirectory (deployFile_opts (Some throwing_options))) = None
   \<and> deployFile sample_env ''other/readme.md'' sample_target (Some throwing_options) =
       [Completed \<lparr>fc_canceled = None, fc_error = Some (mapping_error ''other/readme.md''),
          fc_file = ''other/readme.md'', fc_target = sample_target\<rparr>,
        OnCompleted \<lparr>fc_canceled = None, fc_error = Some (mapping_error ''other/readme.md''),
          fc_file = ''other/readme.md'', fc_target = sample_target\<rparr>,
        Throw (Error ''boom'')]
   \<and> toRelativeTargetPath rootless_env ''other/readme.md'' plain_target
        (baseDirectory (deployFile_opts (Some sample_options))) = None
   \<and> deployFile rootless_env ''other/readme.md'' plain_target (Some sample_options) =
       [Throw undefined_rootPath]"
  by (simp add: run_defs sample_defs posix_defs)

subsection \<open>The destination path\<close>

lemma copy_in_completed:
  "FsCopy src dst \<notin> set (fst (deployFile_completed opts file target err canceled))"
  by (simp add: completed_events split: option.split)

lemma copy_in_leaving: "FsCopy src dst \<in> set (leaving r) \<Longrightarrow> FsCopy src dst \<in> set (fst r)"
  by (auto simp add: leaving_def split: option.splits)

lemma copy_in_returning: "FsCopy src dst \<in> set (returning r) \<Longrightarrow> FsCopy src dst \<in> set (fst r)"
  by (auto simp add: returning_def split: option.splits)

lemma copy_in_deployFile_deployFile:
  "FsCopy src dst \<in> set (fst (deployFile_deployFile env opts file target targetFile targetDirectory))
   \<Longrightarrow> src = file \<and> dst = targetFile"
  by (auto simp add: deployFile_deployFile_def Let_def completed_events prepend_def
      split: option.splits copy_result.splits)

lemma getFullDirPathFromTarget_root_directory:
  "getFullDirPathFromTarget env target = root_directory env target"
  by (simp add: getFullDirPathFromTarget_def root_directory_def toStringSafe_def Let_def
      split: option.split)

lemma sample_run:
  "deployFile sample_env ''proj/readme.md'' sample_target (Some sample_options) =
     [FsExists ''/tmp/dest'', Return,
      OnBeforeDeploy \<lparr>bd_destination = ''/tmp/dest'', bd_file = ''proj/readme.md'',
        bd_target = sample_target\<rparr>,
      FsCopy ''proj/readme.md'' ''/tmp/dest/readme.md'',
      Completed \<lparr>fc_canceled = None, fc_error = None, fc_file = ''proj/readme.md'',
        fc_target = sample_target\<rparr>,
      OnCompleted \<lparr>fc_canceled = None, fc_error = None, fc_file = ''proj/readme.md'',
        fc_target = sample_target\<rparr>]"
  by (simp add: run_defs sample_defs posix_defs)

text \<open>
  Claim C6. Every copy that \<open>deployFile\<close> starts reads the file of the call and writes
  to the target's root directory joined with the relative path the path mapper returned
  for the file, where the root directory is \<open>target.dir\<close>, \<open>./\<close> when that is absent
  or empty, joined under the workspace root when it is not absolute. The witness is the
  specification's example: file \<open>proj/readme.md\<close>, base \<open>proj\<close>, \<open>target.dir\<close>
  \<open>/tmp/dest\<close>, destination \<open>/tmp/dest/readme.md\<close>.
\<close>

theorem deployFile_destination:
  assumes "FsCopy src dst \<in> set (deployFile env file target opts)"
  shows "src = file \<and>
    (\<exists>rel d. toRelativeTargetPath env file target (baseDirectory (deployFile_opts opts)) = Some rel
       \<and> root_directory env target = Inr d
       \<and> dst = path_join env d rel)"
proof (cases "getFullDirPathFromTarget env target")
  case (Inl e)
  with assms show ?thesis by (simp add: deployFile_unresolved)
next
  case (Inr d)
  show ?thesis
  proof (cases "isCancelling env")
    case True
    with Inr assms show ?thesis
      by (auto simp add: deployFile_cancelling copy_in_completed dest: copy_in_returning)
  next
    case live: False
    show ?thesis
    proof (cases "toRelativeTargetPath env file target (baseDirectory (deployFile_opts opts))")
      case None
      with Inr live assms show ?thesis
        by (auto simp add: deployFile_unmapped copy_in_completed dest: copy_in_returning)
    next
      case (Some rel)
      from assms have "src = file \<and> dst = path_join env d rel"
        unfolding deployFile_mapped [OF Inr live Some refl refl]
        by (auto simp add: copy_in_completed split: if_splits option.splits
            dest!: copy_in_leaving dest: copy_in_deployFile_deployFile)
      with Some Inr show ?thesis
        by (simp add: getFullDirPathFromTarget_root_directory [symmetric])
    qed
  qed
qed

theorem deployFile_destination_witness:
  "FsCopy ''proj/readme.md'' ''/tmp/dest/readme.md''
     \<in> set (deployFile sample_env ''proj/readme.md'' sample_target (Some sample_options))
   \<and> toRelativeTargetPath sample_env ''proj/readme.md'' sample_target
        (baseDirectory (deployFile_opts (Some sample_options))) = Some ''readme.md''
   \<and> root_directory sample_env sample_target = Inr ''/tmp/dest''
   \<and> ''/tmp/dest/readme.md'' = path_join sample_env ''/tmp/dest'' ''readme.md''"
proof -
  have copied: "FsCopy ''proj/readme.md'' ''/tmp/dest/readme.md''
      \<in> set (deployFile sample_env ''proj/readme.md'' sample_target (Some sample_options))"
    by (simp add: sample_run)
  have rel: "toRelativeTargetPath sample_env ''proj/readme.md'' sample_target
      (baseDirectory (deployFile_opts (Some sample_options))) = Some ''readme.md''"
    by (simp add: sample_defs deployFile_opts_def)
  have root: "root_directory sample_env sample_target = Inr ''/tmp/dest''"
    by (simp add: sample_defs posix_defs root_directory_def)
  show ?thesis
    using copied rel root deployFile_destination [OF copied]
    by auto
qed

subsection \<open>The order of the steps\<close>

lemma precedes_absent: "(\<forall>e \<in> set t. \<not> Q e) \<Longrightarrow> precedes P Q t"
  by (induction t) simp_all

text \<open>
  What \<open>precedes\<close> says, by positions: every \<open>Q\<close>-event of the run has a \<open>P\<close>-event at
  a smaller index.
\<close>

lemma precedes_nth:
  "precedes P Q t = (\<forall>i < length t. Q (t ! i) \<longrightarrow> (\<exists>j < i. P (t ! j)))"
proof (induction t)
  case Nil
  show ?case by simp
next
  case (Cons e t)
  show ?case
  proof
    assume l: "precedes P Q (e # t)"
    show "\<forall>i < length (e # t). Q ((e # t) ! i) \<longrightarrow> (\<exists>j < i. P ((e # t) ! j))"
    proof (intro allI impI)
      fix i assume i: "i < length (e # t)" and q: "Q ((e # t) ! i)"
      show "\<exists>j < i. P ((e # t) ! j)"
      proof (cases i)
        case 0
        with q l show ?thesis by simp
      next
        case (Suc k)
        show ?thesis
        proof (cases "P e")
          case True
          then show ?thesis using Suc by (intro exI [of _ 0]) simp
        next
          case False
          with l have "precedes P Q t" by simp
          with Cons.IH i q Suc obtain j where "j < k" "P (t ! j)" by auto
          then show ?thesis using Suc by (intro exI [of _ "Suc j"]) simp
        qed
      qed
    qed
  next
    assume r: "\<forall>i < length (e # t). Q ((e # t) ! i) \<longrightarrow> (\<exists>j < i. P ((e # t) ! j))"
    have q0: "\<not> Q e" using r by (auto dest: spec [of _ 0])
    have "precedes P Q t" if "\<not> P e"
    proof -
      have "\<forall>i < length t. Q (t ! i) \<longrightarrow> (\<exists>j < i. P (t ! j))"
      proof (intro allI impI)
        fix i assume i: "i < length t" and q: "Q (t ! i)"
        from r i q obtain j where j: "j < Suc i" "P ((e # t) ! j)"
          by (auto dest!: spec [of _ "Suc i"])
        with that obtain k where "j = Suc k" by (cases j) auto
        with j show "\<exists>j < i. P (t ! j)" by auto
      qed
      with Cons.IH show ?thesis by simp
    qed
    with q0 show "precedes P Q (e # t)" by auto
  qed
qed

lemmas write_defs =
  deployFile_deployFile_def completed_events leaving_def prepend_def Let_def

lemma write_hook:
  "onBeforeDeploy opts = Some h \<Longrightarrow>
   args = \<lparr>bd_destination = targetDirectory, bd_file = file, bd_target = target\<rparr> \<Longrightarrow>
   t = leaving (deployFile_deployFile env opts file target targetFile targetDirectory) \<Longrightarrow>
   OnBeforeDeploy args \<in> set t \<and> precedes is_OnBeforeDeploy is_FsCopy t
   \<and> (\<forall>e. h args = Some e \<longrightarrow>
         (\<forall>x \<in> set t. \<not> is_FsCopy x)
         \<and> completions t =
             [\<lparr>fc_canceled = None, fc_error = Some e, fc_file = file, fc_target = target\<rparr>])"
  by (auto simp add: write_defs split: option.splits copy_result.splits)

lemma write_copy:
  "(case onBeforeDeploy opts of
      None \<Rightarrow> None
    | Some h \<Rightarrow> h \<lparr>bd_destination = targetDirectory, bd_file = file, bd_target = target\<rparr>) = None
   \<Longrightarrow> t = leaving (deployFile_deployFile env opts file target targetFile targetDirectory) \<Longrightarrow>
   FsCopy file targetFile \<in> set t
   \<and> completions t \<noteq> []
   \<and> hd (completions t) =
        \<lparr>fc_canceled = None, fc_error = copy_error (fs_copy env file targetFile),
          fc_file = file, fc_target = target\<rparr>
   \<and> (onCompleted opts \<noteq> None \<longrightarrow>
        notifications t \<noteq> []
        \<and> hd (notifications t) =
             \<lparr>fc_canceled = None, fc_error = copy_error (fs_copy env file targetFile),
               fc_file = file, fc_target = target\<rparr>)"
  by (auto simp add: write_defs copy_error_def split: option.splits copy_result.splits)

lemma write_copies:
  "t = leaving (deployFile_deployFile env opts file target targetFile targetDirectory) \<Longrightarrow>
   FsCopy src dst \<in> set t \<Longrightarrow>
   src = file \<and> dst = targetFile \<and> precedes is_FsCopy is_Completed t"
  by (auto simp add: write_defs split: option.splits copy_result.splits)

lemma write_handler_order:
  "precedes is_Completed is_OnCompleted
     (leaving (deployFile_deployFile env opts file target targetFile targetDirectory))"
  by (auto simp add: write_defs split: option.splits copy_result.splits)

lemma write_terminal:
  "precedes is_Completed (\<lambda>e. is_fs e \<or> is_OnBeforeDeploy e)
     (rev (leaving (deployFile_deployFile env opts file target targetFile targetDirectory)) @ u)"
  by (auto simp add: write_defs split: option.splits copy_result.splits)

lemma write_no_ensure:
  "FsMkdirs p \<notin> set (leaving (deployFile_deployFile env opts file target targetFile
     targetDirectory))"
  by (auto simp add: write_defs split: option.splits copy_result.splits)

text \<open>
  Claim C5, as amended. In a run that is neither cancelled nor stopped by a mapping
  failure, and whose destination root resolves, the steps occur, in this order. The
  run opens with the existence check of the destination directory and the return of
  the call, and the directory is created exactly when it is absent. Once the directory
  is ensured (found, or created without error), the "before deploy" handler that the
  options carry is called; unless it throws, the copy of the file to the destination is
  started, after the handler, and the first completion comes after the copy and carries
  the copy's outcome, which \<open>onCompleted\<close> receives. If the handler throws, no copy is
  started and the one completion carries what it threw. Neither the handler nor the
  copy comes before the directory is ensured; \<open>onCompleted\<close> is called only after the
  closure \<open>completed\<close> is entered, and every file-system call and the "before deploy"
  call are followed by a completion. When the directory is absent and cannot be
  created, neither the handler nor a copy occurs, and the one completion, which
  \<open>onCompleted\<close> receives, has the creation error.
\<close>

theorem deployFile_step_order:
  assumes root: "getFullDirPathFromTarget env target = Inr d"
    and live: "\<not> isCancelling env"
    and mapped: "toRelativeTargetPath env file target (baseDirectory (deployFile_opts opts)) = Some rel"
    and targetFile: "targetFile = path_join env d rel"
    and targetDirectory: "targetDirectory = path_dirname env targetFile"
    and args: "args = \<lparr>bd_destination = targetDirectory, bd_file = file, bd_target = target\<rparr>"
    and ensured: "ensured = (\<lambda>e. e = FsExists targetDirectory \<and> fs_exists env targetDirectory
                             \<or> e = FsMkdirs targetDirectory \<and> fs_mkdirs env targetDirectory = None)"
    and t: "t = deployFile env file target opts"
  shows "take 2 t = [FsExists targetDirectory, Return]
    \<and> (FsMkdirs targetDirectory \<in> set t) = (\<not> fs_exists env targetDirectory)
    \<and> (fs_exists env targetDirectory \<or> fs_mkdirs env targetDirectory = None \<longrightarrow>
         (\<forall>h. onBeforeDeploy (deployFile_opts opts) = Some h \<longrightarrow>
            OnBeforeDeploy args \<in> set t \<and> precedes is_OnBeforeDeploy is_FsCopy t
            \<and> (\<forall>e. h args = Some e \<longrightarrow>
                  (\<forall>x \<in> set t. \<not> is_FsCopy x)
                  \<and> completions t =
                      [\<lparr>fc_canceled = None, fc_error = Some e, fc_file = file,
                        fc_target = target\<rparr>]))
         \<and> ((case onBeforeDeploy (deployFile_opts opts) of None \<Rightarrow> None | Some h \<Rightarrow> h args) = None
              \<longrightarrow>
              FsCopy file targetFile \<in> set t
              \<and> completions t \<noteq> []
              \<and> hd (completions t) =
                   \<lparr>fc_canceled = None, fc_error = copy_error (fs_copy env file targetFile),
                     fc_file = file, fc_target = target\<rparr>
              \<and> (onCompleted (deployFile_opts opts) \<noteq> None \<longrightarrow>
                   notifications t \<noteq> []
                   \<and> hd (notifications t) =
                        \<lparr>fc_canceled = None, fc_error = copy_error (fs_copy env file targetFile),
                          fc_file = file, fc_target = target\<rparr>)))
    \<and> precedes ensured is_OnBeforeDeploy t
    \<and> precedes ensured is_FsCopy t
    \<and> (\<forall>src dst. FsCopy src dst \<in> set t \<longrightarrow>
          src = file \<and> dst = targetFile \<and> precedes is_FsCopy is_Completed t)
    \<and> precedes is_Completed is_OnCompleted t
    \<and> precedes is_Completed (\<lambda>e. is_fs e \<or> is_OnBeforeDeploy e) (rev t)
    \<and> (\<forall>err. \<not> fs_exists env targetDirectory \<and> fs_mkdirs env targetDirectory = Some err \<longrightarrow>
          (\<forall>e \<in> set t. \<not> is_OnBeforeDeploy e \<and> \<not> is_FsCopy e)
          \<and> completions t =
              [\<lparr>fc_canceled = None, fc_error = Some err, fc_file = file, fc_target = target\<rparr>]
          \<and> (onCompleted (deployFile_opts opts) \<noteq> None \<longrightarrow>
               notifications t =
                 [\<lparr>fc_canceled = None, fc_error = Some err, fc_file = file,
                   fc_target = target\<rparr>]))"
proof -
  let ?opts = "deployFile_opts opts"
  let ?copying = "leaving (deployFile_deployFile env ?opts file target targetFile targetDirectory)"
  note shape = deployFile_mapped [OF root live mapped targetFile targetDirectory]
  have hook: "\<forall>h. onBeforeDeploy ?opts = Some h \<longrightarrow>
            OnBeforeDeploy args \<in> set ?copying \<and> precedes is_OnBeforeDeploy is_FsCopy ?copying
            \<and> (\<forall>e. h args = Some e \<longrightarrow>
                  (\<forall>x \<in> set ?copying. \<not> is_FsCopy x)
                  \<and> completions ?copying =
                      [\<lparr>fc_canceled = None, fc_error = Some e, fc_file = file,
                        fc_target = target\<rparr>])"
    by (intro allI impI) (rule write_hook [OF _ args refl])
  have copy: "(case onBeforeDeploy ?opts of None \<Rightarrow> None | Some h \<Rightarrow> h args) = None
              \<longrightarrow>
              FsCopy file targetFile \<in> set ?copying
              \<and> completions ?copying \<noteq> []
              \<and> hd (completions ?copying) =
                   \<lparr>fc_canceled = None, fc_error = copy_error (fs_copy env file targetFile),
                     fc_file = file, fc_target = target\<rparr>
              \<and> (onCompleted ?opts \<noteq> None \<longrightarrow>
                   notifications ?copying \<noteq> []
                   \<and> hd (notifications ?copying) =
                        \<lparr>fc_canceled = None, fc_error = copy_error (fs_copy env file targetFile),
                          fc_file = file, fc_target = target\<rparr>)"
    unfolding args by (intro impI) (rule write_copy [OF _ refl])
  note steps = hook copy
  have copies: "\<forall>src dst. FsCopy src dst \<in> set ?copying \<longrightarrow>
      src = file \<and> dst = targetFile \<and> precedes is_FsCopy is_Completed ?copying"
    using write_copies [OF refl] by blast
  consider (there) "fs_exists env targetDirectory"
    | (made) "\<not> fs_exists env targetDirectory" "fs_mkdirs env targetDirectory = None"
    | (failed) err where "\<not> fs_exists env targetDirectory" "fs_mkdirs env targetDirectory = Some err"
    by (cases "fs_mkdirs env targetDirectory") auto
  then show ?thesis
  proof cases
    case there
    then have t': "t = FsExists targetDirectory # Return # ?copying"
      by (simp add: t shape)
    have c1: "take 2 t = [FsExists targetDirectory, Return]" by (simp add: t')
    have c2: "(FsMkdirs targetDirectory \<in> set t) = (\<not> fs_exists env targetDirectory)"
      using there by (simp add: t' write_no_ensure)
    have c3: "precedes ensured is_OnBeforeDeploy t" using there by (simp add: t' ensured)
    have c4: "precedes ensured is_FsCopy t" using there by (simp add: t' ensured)
    have c7: "precedes is_Completed is_OnCompleted t"
      by (simp add: t' write_handler_order)
    have c8: "precedes is_Completed (\<lambda>e. is_fs e \<or> is_OnBeforeDeploy e) (rev t)"
      by (simp add: t' write_terminal)
    from steps copies c1 c2 c3 c4 c7 c8 there show ?thesis
      unfolding t' by simp
  next
    case made
    then have t': "t = FsExists targetDirectory # Return # FsMkdirs targetDirectory # ?copying"
      by (simp add: t shape)
    have c1: "take 2 t = [FsExists targetDirectory, Return]" by (simp add: t')
    have c2: "(FsMkdirs targetDirectory \<in> set t) = (\<not> fs_exists env targetDirectory)"
      using made by (simp add: t')
    have c3: "precedes ensured is_OnBeforeDeploy t" using made by (simp add: t' ensured)
    have c4: "precedes ensured is_FsCopy t" using made by (simp add: t' ensured)
    have c7: "precedes is_Completed is_OnCompleted t"
      by (simp add: t' write_handler_order)
    have c8: "precedes is_Completed (\<lambda>e. is_fs e \<or> is_OnBeforeDeploy e) (rev t)"
      by (simp add: t' write_terminal)
    from steps copies c1 c2 c3 c4 c7 c8 made show ?thesis
      unfolding t' by simp
  next
    case failed
    let ?done = "leaving (deployFile_completed ?opts file target (Some err) None)"
    from failed have t': "t = FsExists targetDirectory # Return # FsMkdirs targetDirectory # ?done"
      by (simp add: t shape)
    have quiet: "\<forall>e \<in> set t. \<not> is_OnBeforeDeploy e \<and> \<not> is_FsCopy e"
      by (auto simp add: t' completed_events leaving_def split: option.splits)
    have c1: "take 2 t = [FsExists targetDirectory, Return]" by (simp add: t')
    have c2: "(FsMkdirs targetDirectory \<in> set t) = (\<not> fs_exists env targetDirectory)"
      using failed by (simp add: t')
    have c3: "precedes ensured is_OnBeforeDeploy t" using quiet by (simp add: precedes_absent)
    have c4: "precedes ensured is_FsCopy t" using quiet by (simp add: precedes_absent)
    have c6: "\<forall>src dst. FsCopy src dst \<in> set t \<longrightarrow>
          src = file \<and> dst = targetFile \<and> precedes is_FsCopy is_Completed t"
      using quiet by auto
    have c7: "precedes is_Completed is_OnCompleted t"
      by (auto simp add: t' completed_events leaving_def split: option.splits)
    have c8: "precedes is_Completed (\<lambda>e. is_fs e \<or> is_OnBeforeDeploy e) (rev t)"
      by (auto simp add: t' completed_events leaving_def split: option.splits)
    have c9: "completions t =
              [\<lparr>fc_canceled = None, fc_error = Some err, fc_file = file, fc_target = target\<rparr>]
          \<and> (onCompleted ?opts \<noteq> None \<longrightarrow>
               notifications t =
                 [\<lparr>fc_canceled = None, fc_error = Some err, fc_file = file,
                   fc_target = target\<rparr>])"
      by (auto simp add: t' completed_events leaving_def split: option.splits)
    from c1 c2 c3 c4 c6 c7 c8 c9 quiet failed show ?thesis by simp
  qed
qed

theorem deployFile_step_order_witness:
  "getFullDirPathFromTarget sample_env sample_target = Inr ''/tmp/dest''
   \<and> \<not> isCancelling sample_env
   \<and> toRelativeTargetPath sample_env ''proj/readme.md'' sample_target
        (baseDirectory (deployFile_opts (Some sample_options))) = Some ''readme.md''
   \<and> fs_exists sample_env ''/tmp/dest''
   \<and> OnBeforeDeploy \<lparr>bd_destination = ''/tmp/dest'', bd_file = ''proj/readme.md'',
         bd_target = sample_target\<rparr>
        \<in> set (deployFile sample_env ''proj/readme.md'' sample_target (Some sample_options))
   \<and> FsCopy ''proj/readme.md'' ''/tmp/dest/readme.md''
        \<in> set (deployFile sample_env ''proj/readme.md'' sample_target (Some sample_options))
   \<and> precedes is_OnBeforeDeploy is_FsCopy
        (deployFile sample_env ''proj/readme.md'' sample_target (Some sample_options))
   \<and> hd (notifications
             (deployFile sample_env ''proj/readme.md'' sample_target (Some sample_options))) =
        \<lparr>fc_canceled = None, fc_error = None, fc_file = ''proj/readme.md'',
          fc_target = sample_target\<rparr>
   \<and> \<not> fs_exists failing_mkdirs_env ''/tmp/dest''
   \<and> fs_mkdirs failing_mkdirs_env ''/tmp/dest'' = Some (Error ''EACCES'')
   \<and> notifications
        (deployFile failing_mkdirs_env ''proj/readme.md'' sample_target (Some sample_options)) =
       [\<lparr>fc_canceled = None, fc_error = Some (Error ''EACCES''), fc_file = ''proj/readme.md'',
         fc_target = sample_target\<rparr>]"
proof -
  have root: "getFullDirPathFromTarget sample_env sample_target = Inr ''/tmp/dest''"
    "getFullDirPathFromTarget failing_mkdirs_env sample_target = Inr ''/tmp/dest''"
    by (simp_all add: sample_defs posix_defs getFullDirPathFromTarget_def toStringSafe_def)
  have live: "\<not> isCancelling sample_env" "\<not> isCancelling failing_mkdirs_env"
    by (simp_all add: sample_defs)
  have mapped:
    "toRelativeTargetPath sample_env ''proj/readme.md'' sample_target
       (baseDirectory (deployFile_opts (Some sample_options))) = Some ''readme.md''"
    "toRelativeTargetPath failing_mkdirs_env ''proj/readme.md'' sample_target
       (baseDirectory (deployFile_opts (Some sample_options))) = Some ''readme.md''"
    by (simp_all add: sample_defs deployFile_opts_def)
  have targetFile:
    "''/tmp/dest/readme.md'' = path_join sample_env ''/tmp/dest'' ''readme.md''"
    "''/tmp/dest/readme.md'' = path_join failing_mkdirs_env ''/tmp/dest'' ''readme.md''"
    by (simp_all add: sample_defs posix_defs)
  have targetDirectory:
    "''/tmp/dest'' = path_dirname sample_env ''/tmp/dest/readme.md''"
    "''/tmp/dest'' = path_dirname failing_mkdirs_env ''/tmp/dest/readme.md''"
    by (simp_all add: sample_defs posix_defs)
  have there: "fs_exists sample_env ''/tmp/dest''"
    by (simp add: sample_defs)
  have handlers: "onBeforeDeploy (deployFile_opts (Some sample_options)) = Some (\<lambda>a. None)"
    "onCompleted (deployFile_opts (Some sample_options)) \<noteq> None"
    by (simp_all add: sample_defs deployFile_opts_def)
  have copied: "copy_error (fs_copy sample_env ''proj/readme.md'' ''/tmp/dest/readme.md'') = None"
    by (simp add: sample_defs copy_error_def)
  have missing: "\<not> fs_exists failing_mkdirs_env ''/tmp/dest''"
    "fs_mkdirs failing_mkdirs_env ''/tmp/dest'' = Some (Error ''EACCES'')"
    by (simp_all add: sample_defs)
  note good = deployFile_step_order
    [OF root(1) live(1) mapped(1) targetFile(1) targetDirectory(1) refl refl refl]
  note bad = deployFile_step_order
    [OF root(2) live(2) mapped(2) targetFile(2) targetDirectory(2) refl refl refl]
  from good there handlers copied have
    "OnBeforeDeploy \<lparr>bd_destination = ''/tmp/dest'', bd_file = ''proj/readme.md'',
         bd_target = sample_target\<rparr>
        \<in> set (deployFile sample_env ''proj/readme.md'' sample_target (Some sample_options))"
    "FsCopy ''proj/readme.md'' ''/tmp/dest/readme.md''
        \<in> set (deployFile sample_env ''proj/readme.md'' sample_target (Some sample_options))"
    "precedes is_OnBeforeDeploy is_FsCopy
        (deployFile sample_env ''proj/readme.md'' sample_target (Some sample_options))"
    "hd (notifications
             (deployFile sample_env ''proj/readme.md'' sample_target (Some sample_options))) =
        \<lparr>fc_canceled = None, fc_error = None, fc_file = ''proj/readme.md'',
          fc_target = sample_target\<rparr>"
    by simp_all
  moreover from bad missing handlers(2) have "notifications
        (deployFile failing_mkdirs_env ''proj/readme.md'' sample_target (Some sample_options)) =
       [\<lparr>fc_canceled = None, fc_error = Some (Error ''EACCES''), fc_file = ''proj/readme.md'',
         fc_target = sample_target\<rparr>]"
    by simp
  ultimately show ?thesis using root(1) live(1) mapped(1) there missing by (intro conjI)
qed

text \<open>
  Claim C5 as stated fails for a run that is neither cancelled nor stopped by a mapping
  failure but has no folder open and a target without \<open>dir\<close>: resolving the root
  raises before the first step, and none of the steps occurs. It also fails when the
  copy fires its callback while it is being called and \<open>onCompleted\<close> throws: the last
  call of \<open>onCompleted\<close> then carries the handler's own exception, not the outcome
  of the copy, which only the first call carries.
\<close>

theorem deployFile_step_order_counterexample:
  "\<not> isCancelling rootless_env
   \<and> toRelativeTargetPath rootless_env ''proj/readme.md'' plain_target
        (baseDirectory (deployFile_opts (Some sample_options))) = Some ''readme.md''
   \<and> deployFile rootless_env ''proj/readme.md'' plain_target (Some sample_options) =
       [Throw undefined_rootPath]
   \<and> \<not> isCancelling sync_copy_env
   \<and> fs_copy sync_copy_env ''proj/readme.md'' ''/tmp/dest/readme.md'' = CopySync None
   \<and> notifications
        (deployFile sync_copy_env ''proj/readme.md'' sample_target (Some throwing_options)) =
       [\<lparr>fc_canceled = None, fc_error = None, fc_file = ''proj/readme.md'',
         fc_target = sample_target\<rparr>,
        \<lparr>fc_canceled = None, fc_error = Some (Error ''boom''), fc_file = ''proj/readme.md'',
         fc_target = sample_target\<rparr>]"
  by (simp add: run_defs sample_defs posix_defs)

section \<open>Runs of deployWorkspace\<close>

lemmas workspace_defs =
  deployWorkspace_def deployWorkspace_completed_def deployWorkspace_targetDir_def
  startDeploying_def join_rootPath_def toStringSafe_def toBooleanSafe_def leaving_def
  returning_def Let_def

lemma workspace_completed_events:
  "deployWorkspace_completed opts target err canceled =
     (case opts of
        None \<Rightarrow>
          ([WorkspaceCompleted \<lparr>wc_canceled = canceled, wc_error = err, wc_target = target\<rparr>],
           Some undefined_onCompleted)
      | Some given \<Rightarrow>
          (case onCompleted_workspace given of
             None \<Rightarrow>
               ([WorkspaceCompleted \<lparr>wc_canceled = canceled, wc_error = err, wc_target = target\<rparr>],
                None)
           | Some h \<Rightarrow>
               ([WorkspaceCompleted \<lparr>wc_canceled = canceled, wc_error = err, wc_target = target\<rparr>,
                 OnWorkspaceCompleted \<lparr>wc_canceled = canceled, wc_error = err, wc_target = target\<rparr>],
                h \<lparr>wc_canceled = canceled, wc_error = err, wc_target = target\<rparr>)))"
  by (simp add: deployWorkspace_completed_def Let_def split: option.split)

lemma deployWorkspace_unresolved:
  "deployWorkspace_targetDir env target = Inl e \<Longrightarrow>
   deployWorkspace env files target opts = [Throw e]"
  by (simp add: deployWorkspace_def)

lemma deployWorkspace_cancelling:
  "deployWorkspace_targetDir env target = Inr targetDir \<Longrightarrow> isCancelling env \<Longrightarrow>
   deployWorkspace env files target opts =
     returning (deployWorkspace_completed opts target None (Some True))"
  by (simp add: deployWorkspace_def)

lemma deployWorkspace_emptied:
  "deployWorkspace_targetDir env target = Inr targetDir \<Longrightarrow>
   \<not> isCancelling env \<Longrightarrow> toBooleanSafe (empty target) False \<Longrightarrow>
   fs_emptyDir env targetDir = None \<Longrightarrow>
   deployWorkspace env files target opts =
     [Append (empty_message targetDir), FsEmptyDir targetDir, Return, AppendLine ''[OK]'',
      SuperDeployWorkspace files target]
     @ fst (super_deployWorkspace env files target opts)
     @ snd (super_deployWorkspace env files target opts)"
  by (simp add: deployWorkspace_def startDeploying_def Let_def)

lemma deployWorkspace_not_emptied:
  "deployWorkspace_targetDir env target = Inr targetDir \<Longrightarrow>
   \<not> isCancelling env \<Longrightarrow> toBooleanSafe (empty target) False \<Longrightarrow>
   fs_emptyDir env targetDir = Some err \<Longrightarrow>
   deployWorkspace env files target opts =
     [Append (empty_message targetDir), FsEmptyDir targetDir, Return,
      Append (failed_message err)]
     @ leaving (deployWorkspace_completed opts target (Some err) None)"
  by (simp add: deployWorkspace_def)


subsection \<open>Cancellation before the start\<close>

text \<open>
  Claim C7, as amended. If \<open>context.isCancelling()\<close> is true when \<open>deployWorkspace\<close> is
  entered, the run empties no directory (it makes no file-system call at all), hands
  nothing to the base class and holds none of its per-file events: it consists of
  nothing but the canceled completion and the end of the call. When options are given
  and the destination root resolves, the closure \<open>completed\<close> is entered exactly once,
  with \<open>canceled = true\<close> and no error, the workspace handler \<open>onCompleted\<close> that the
  options carry is invoked exactly once with it, and the call returns when the handler
  returns or is absent; the handler's exception leaves the call when it throws.
\<close>

theorem deployWorkspace_cancellation_short_circuit:
  assumes "isCancelling env"
  shows "(\<forall>e \<in> set (deployWorkspace env files target opts).
            e = WorkspaceCompleted \<lparr>wc_canceled = Some True, wc_error = None, wc_target = target\<rparr>
            \<or> e = OnWorkspaceCompleted
                    \<lparr>wc_canceled = Some True, wc_error = None, wc_target = target\<rparr>
            \<or> e = Return \<or> is_Throw e)
    \<and> (\<forall>d given. deployWorkspace_targetDir env target = Inr d \<and> opts = Some given \<longrightarrow>
          workspace_completions (deployWorkspace env files target opts) =
            [\<lparr>wc_canceled = Some True, wc_error = None, wc_target = target\<rparr>]
          \<and> (\<forall>h. onCompleted_workspace given = Some h \<longrightarrow>
                deployWorkspace env files target opts =
                  [WorkspaceCompleted
                     \<lparr>wc_canceled = Some True, wc_error = None, wc_target = target\<rparr>,
                   OnWorkspaceCompleted
                     \<lparr>wc_canceled = Some True, wc_error = None, wc_target = target\<rparr>,
                   case h \<lparr>wc_canceled = Some True, wc_error = None, wc_target = target\<rparr> of
                     None \<Rightarrow> Return
                   | Some e \<Rightarrow> Throw e])
          \<and> (onCompleted_workspace given = None \<longrightarrow>
                deployWorkspace env files target opts =
                  [WorkspaceCompleted
                     \<lparr>wc_canceled = Some True, wc_error = None, wc_target = target\<rparr>,
                   Return]))"
proof (cases "deployWorkspace_targetDir env target")
  case (Inl e)
  then show ?thesis by (simp add: deployWorkspace_unresolved)
next
  case (Inr d)
  with assms show ?thesis
    by (auto simp add: deployWorkspace_cancelling workspace_completed_events returning_def
        split: option.split)
qed

theorem deployWorkspace_cancellation_short_circuit_witness:
  "isCancelling cancelling_env
   \<and> deployWorkspace_targetDir cancelling_env emptying_target = Inr ''/tmp/dest''
   \<and> deployWorkspace cancelling_env [''proj/readme.md''] emptying_target
        (Some sample_workspace_options) =
       [WorkspaceCompleted \<lparr>wc_canceled = Some True, wc_error = None, wc_target = emptying_target\<rparr>,
        OnWorkspaceCompleted
          \<lparr>wc_canceled = Some True, wc_error = None, wc_target = emptying_target\<rparr>,
        Return]"
proof -
  have c: "isCancelling cancelling_env"
    by (simp add: sample_defs)
  have d: "deployWorkspace_targetDir cancelling_env emptying_target = Inr ''/tmp/dest''"
    by (simp add: sample_defs posix_defs deployWorkspace_targetDir_def toStringSafe_def)
  have h: "onCompleted_workspace sample_workspace_options = Some (\<lambda>a. None)"
    by (simp add: sample_defs)
  show ?thesis
    using c d h
      deployWorkspace_cancellation_short_circuit
        [OF c, of "[''proj/readme.md'']" emptying_target "Some sample_workspace_options"]
    by simp
qed

text \<open>
  Claim C7 as stated fails on three inputs. Without options, the closure \<open>completed\<close>
  raises a \<open>TypeError\<close> and the call does not return. With no folder open and a target
  without \<open>dir\<close>, resolving the root raises before the cancellation check and no
  completion is reported. And a handler that throws is invoked with \<open>canceled = true\<close>,
  but its exception leaves the call in place of the return.
\<close>

theorem deployWorkspace_cancellation_short_circuit_counterexample:
  "isCancelling cancelling_env
   \<and> deployWorkspace cancelling_env [''proj/readme.md''] sample_target None =
       [WorkspaceCompleted \<lparr>wc_canceled = Some True, wc_error = None, wc_target = sample_target\<rparr>,
        Throw undefined_onCompleted]
   \<and> isCancelling cancelling_rootless_env
   \<and> deployWorkspace cancelling_rootless_env [''proj/readme.md''] plain_target
        (Some sample_workspace_options) = [Throw undefined_rootPath]
   \<and> deployWorkspace cancelling_env [''proj/readme.md''] sample_target
        (Some throwing_workspace_options) =
       [WorkspaceCompleted \<lparr>wc_canceled = Some True, wc_error = None, wc_target = sample_target\<rparr>,
        OnWorkspaceCompleted
          \<lparr>wc_canceled = Some True, wc_error = None, wc_target = sample_target\<rparr>,
        Throw (Error ''boom'')]"
  by (simp add: workspace_defs sample_defs posix_defs)

subsection \<open>Emptying before deploying\<close>

text \<open>
  Claim C3. With \<open>target.empty = true\<close>, every hand-over of \<open>deployWorkspace\<close> to
  the base class, and with it every per-file deployment and every copy, comes after the
  call that empties the destination root. When no cancellation is pending the run
  starts by announcing and calling the emptying, and the hand-over takes place only
  when the emptying succeeded. If the emptying fails, the run holds no hand-over and
  no copy: it ends with the failure message and the one completion carrying the
  emptying error, which the workspace handler \<open>onCompleted\<close> receives when the options
  carry it. (When the destination root does not resolve, the run is the exception of
  that alone: nothing is emptied and nothing is deployed.)
\<close>

theorem deployWorkspace_empty_before_deploy:
  assumes emptying: "empty target = Some True"
    and t: "t = deployWorkspace env files target opts"
  shows "(\<forall>e. deployWorkspace_targetDir env target = Inl e \<longrightarrow> t = [Throw e])
    \<and> (\<forall>targetDir. deployWorkspace_targetDir env target = Inr targetDir \<longrightarrow>
      precedes (\<lambda>e. e = FsEmptyDir targetDir) (\<lambda>e. is_SuperDeployWorkspace e \<or> is_FsCopy e) t
      \<and> (\<not> isCancelling env \<longrightarrow>
         take 3 t = [Append (empty_message targetDir), FsEmptyDir targetDir, Return]
         \<and> (fs_emptyDir env targetDir = None \<longrightarrow>
              t = [Append (empty_message targetDir), FsEmptyDir targetDir, Return,
                   AppendLine ''[OK]'', SuperDeployWorkspace files target]
                  @ fst (super_deployWorkspace env files target opts)
                  @ snd (super_deployWorkspace env files target opts))
         \<and> (\<forall>err. fs_emptyDir env targetDir = Some err \<longrightarrow>
               (\<forall>e \<in> set t. \<not> is_SuperDeployWorkspace e \<and> \<not> is_FsCopy e)
               \<and> workspace_completions t =
                   [\<lparr>wc_canceled = None, wc_error = Some err, wc_target = target\<rparr>]
               \<and> (\<forall>given. opts = Some given \<longrightarrow>
                     (\<forall>h. onCompleted_workspace given = Some h \<longrightarrow>
                        t = [Append (empty_message targetDir), FsEmptyDir targetDir, Return,
                             Append (failed_message err),
                             WorkspaceCompleted
                               \<lparr>wc_canceled = None, wc_error = Some err, wc_target = target\<rparr>,
                             OnWorkspaceCompleted
                               \<lparr>wc_canceled = None, wc_error = Some err, wc_target = target\<rparr>]
                            @ (case h \<lparr>wc_canceled = None, wc_error = Some err,
                                       wc_target = target\<rparr> of
                                 None \<Rightarrow> []
                               | Some e \<Rightarrow> [Throw e]))
                     \<and> (onCompleted_workspace given = None \<longrightarrow>
                        t = [Append (empty_message targetDir), FsEmptyDir targetDir, Return,
                             Append (failed_message err),
                             WorkspaceCompleted
                               \<lparr>wc_canceled = None, wc_error = Some err,
                                 wc_target = target\<rparr>])))))"
proof (cases "deployWorkspace_targetDir env target")
  case (Inl e)
  then show ?thesis by (simp add: t deployWorkspace_unresolved)
next
  case (Inr targetDir)
  have doEmptyDir: "toBooleanSafe (empty target) False"
    using emptying by (simp add: toBooleanSafe_def)
  show ?thesis
  proof (cases "isCancelling env")
    case True
    then have "\<forall>e \<in> set t. \<not> (is_SuperDeployWorkspace e \<or> is_FsCopy e)"
      by (auto simp add: t deployWorkspace_cancelling [OF Inr] workspace_completed_events
          returning_def split: option.splits)
    then have "precedes (\<lambda>e. e = FsEmptyDir targetDir)
        (\<lambda>e. is_SuperDeployWorkspace e \<or> is_FsCopy e) t"
      by (rule precedes_absent)
    with True Inr show ?thesis by simp
  next
    case live: False
    show ?thesis
    proof (cases "fs_emptyDir env targetDir")
      case None
      have t': "t = [Append (empty_message targetDir), FsEmptyDir targetDir, Return,
          AppendLine ''[OK]'', SuperDeployWorkspace files target]
          @ fst (super_deployWorkspace env files target opts)
          @ snd (super_deployWorkspace env files target opts)"
        using deployWorkspace_emptied [OF Inr live doEmptyDir None] by (simp add: t)
      have "take 3 t = [Append (empty_message targetDir), FsEmptyDir targetDir, Return]"
        by (simp add: t')
      moreover have "precedes (\<lambda>e. e = FsEmptyDir targetDir)
          (\<lambda>e. is_SuperDeployWorkspace e \<or> is_FsCopy e) t"
        by (simp add: t')
      ultimately show ?thesis using None Inr live t' by simp
    next
      case (Some err)
      have t': "t = [Append (empty_message targetDir), FsEmptyDir targetDir, Return,
          Append (failed_message err)]
          @ leaving (deployWorkspace_completed opts target (Some err) None)"
        using deployWorkspace_not_emptied [OF Inr live doEmptyDir Some] by (simp add: t)
      have c1: "take 3 t = [Append (empty_message targetDir), FsEmptyDir targetDir, Return]"
        by (simp add: t')
      have c2: "precedes (\<lambda>e. e = FsEmptyDir targetDir)
          (\<lambda>e. is_SuperDeployWorkspace e \<or> is_FsCopy e) t"
        by (simp add: t')
      have c3: "\<forall>e \<in> set t. \<not> is_SuperDeployWorkspace e \<and> \<not> is_FsCopy e"
        by (auto simp add: t' workspace_completed_events leaving_def split: option.splits)
      have c4: "workspace_completions t =
          [\<lparr>wc_canceled = None, wc_error = Some err, wc_target = target\<rparr>]"
        by (auto simp add: t' workspace_completed_events leaving_def split: option.splits)
      have c5: "\<forall>given. opts = Some given \<longrightarrow>
          (\<forall>h. onCompleted_workspace given = Some h \<longrightarrow>
             t = [Append (empty_message targetDir), FsEmptyDir targetDir, Return,
                  Append (failed_message err),
                  WorkspaceCompleted \<lparr>wc_canceled = None, wc_error = Some err, wc_target = target\<rparr>,
                  OnWorkspaceCompleted
                    \<lparr>wc_canceled = None, wc_error = Some err, wc_target = target\<rparr>]
                 @ (case h \<lparr>wc_canceled = None, wc_error = Some err, wc_target = target\<rparr> of
                      None \<Rightarrow> []
                    | Some e \<Rightarrow> [Throw e]))
          \<and> (onCompleted_workspace given = None \<longrightarrow>
             t = [Append (empty_message targetDir), FsEmptyDir targetDir, Return,
                  Append (failed_message err),
                  WorkspaceCompleted \<lparr>wc_canceled = None, wc_error = Some err, wc_target = target\<rparr>])"
        by (auto simp add: t' workspace_completed_events leaving_def split: option.splits)
      from Some Inr live c1 c2 c3 c4 c5 show ?thesis by simp
    qed
  qed
qed

theorem deployWorkspace_empty_before_deploy_witness:
  "empty emptying_target = Some True
   \<and> deployWorkspace_targetDir failing_emptyDir_env emptying_target = Inr ''/tmp/dest''
   \<and> \<not> isCancelling failing_emptyDir_env
   \<and> fs_emptyDir failing_emptyDir_env ''/tmp/dest'' = Some (Error ''EPERM'')
   \<and> deployWorkspace failing_emptyDir_env [''proj/readme.md''] emptying_target
        (Some sample_workspace_options) =
       [Append (empty_message ''/tmp/dest''), FsEmptyDir ''/tmp/dest'', Return,
        Append (failed_message (Error ''EPERM'')),
        WorkspaceCompleted
          \<lparr>wc_canceled = None, wc_error = Some (Error ''EPERM''), wc_target = emptying_target\<rparr>,
        OnWorkspaceCompleted
          \<lparr>wc_canceled = None, wc_error = Some (Error ''EPERM''), wc_target = emptying_target\<rparr>]
   \<and> deployWorkspace_targetDir sample_env emptying_target = Inr ''/tmp/dest''
   \<and> \<not> isCancelling sample_env
   \<and> fs_emptyDir sample_env ''/tmp/dest'' = None
   \<and> deployWorkspace sample_env [''proj/readme.md''] emptying_target
        (Some sample_workspace_options) =
       [Append (empty_message ''/tmp/dest''), FsEmptyDir ''/tmp/dest'', Return,
        AppendLine ''[OK]'', SuperDeployWorkspace [''proj/readme.md''] emptying_target]"
proof -
  have live: "\<not> isCancelling failing_emptyDir_env" "\<not> isCancelling sample_env"
    by (simp_all add: sample_defs)
  have emptying: "empty emptying_target = Some True"
    by (simp add: sample_defs)
  have targetDir: "deployWorkspace_targetDir failing_emptyDir_env emptying_target = Inr ''/tmp/dest''"
    "deployWorkspace_targetDir sample_env emptying_target = Inr ''/tmp/dest''"
    by (simp_all add: sample_defs posix_defs deployWorkspace_targetDir_def toStringSafe_def)
  have failing: "fs_emptyDir failing_emptyDir_env ''/tmp/dest'' = Some (Error ''EPERM'')"
    by (simp add: sample_defs)
  have fine: "fs_emptyDir sample_env ''/tmp/dest'' = None"
    "super_deployWorkspace sample_env [''proj/readme.md''] emptying_target
       (Some sample_workspace_options) = ([], [])"
    by (simp_all add: sample_defs)
  have h: "onCompleted_workspace sample_workspace_options = Some (\<lambda>a. None)"
    by (simp add: sample_defs)
  note bad = deployWorkspace_empty_before_deploy
    [OF emptying refl, of failing_emptyDir_env "[''proj/readme.md'']"
      "Some sample_workspace_options"]
  note good = deployWorkspace_empty_before_deploy
    [OF emptying refl, of sample_env "[''proj/readme.md'']" "Some sample_workspace_options"]
  from bad targetDir(1) live(1) failing h
  have "deployWorkspace failing_emptyDir_env [''proj/readme.md''] emptying_target
        (Some sample_workspace_options) =
       [Append (empty_message ''/tmp/dest''), FsEmptyDir ''/tmp/dest'', Return,
        Append (failed_message (Error ''EPERM'')),
        WorkspaceCompleted
          \<lparr>wc_canceled = None, wc_error = Some (Error ''EPERM''), wc_target = emptying_target\<rparr>,
        OnWorkspaceCompleted
          \<lparr>wc_canceled = None, wc_error = Some (Error ''EPERM''), wc_target = emptying_target\<rparr>]"
    by simp
  moreover from good targetDir(2) live(2) fine
  have "deployWorkspace sample_env [''proj/readme.md''] emptying_target
        (Some sample_workspace_options) =
       [Append (empty_message ''/tmp/dest''), FsEmptyDir ''/tmp/dest'', Return,
        AppendLine ''[OK]'', SuperDeployWorkspace [''proj/readme.md''] emptying_target]"
    by simp
  ultimately show ?thesis using live emptying targetDir failing fine(1) by (intro conjI)
qed

subsection \<open>Omitted options\<close>





section \<open>The destination root, twice\<close>

lemma split_slash_not_Nil: "split_slash xs \<noteq> []"
  by (induction xs) (auto split: list.splits)

lemma split_slash_append:
  "split_slash (xs @ CHR ''/'' # ys) = split_slash xs @ split_slash ys"
  by (induction xs) (auto simp add: split_slash_not_Nil split: list.splits)

lemma split_slash_clean: "s \<in> set (split_slash xs) \<Longrightarrow> CHR ''/'' \<notin> set s"
  by (induction xs arbitrary: s) (auto split: if_splits list.splits)

lemma normalize_segments_append:
  "normalize_segments a res (xs @ ys) =
     normalize_segments a (rev (normalize_segments a res xs)) ys"
proof (induction a res xs rule: normalize_segments.induct)
  case (1 a res)
  show ?case by simp
next
  case (2 a res s ss)
  show ?case
  proof (cases "s = [] \<or> s = ''.''")
    case True
    with 2(1) show ?thesis by simp
  next
    case plain: False
    show ?thesis
    proof (cases "s = ''..''")
      case up: True
      show ?thesis
      proof (cases res)
        case Nil
        with plain up 2(2,3) show ?thesis by (cases a) simp_all
      next
        case (Cons r rs)
        show ?thesis
        proof (cases "r = ''..''")
          case True
          with plain up Cons 2(5,6) show ?thesis by (cases a) simp_all
        next
          case False
          with plain up Cons 2(4) show ?thesis by simp
        qed
      qed
    next
      case False
      with plain 2(7) show ?thesis by simp
    qed
  qed
qed

lemma normalize_segments_dot:
  "normalize_segments a res (xs @ [''.'', []]) = normalize_segments a res xs"
  by (simp add: normalize_segments_append)

lemma normalize_segments_clean:
  "\<forall>s \<in> set res. s \<noteq> [] \<and> CHR ''/'' \<notin> set s \<Longrightarrow>
   \<forall>s \<in> set xs. CHR ''/'' \<notin> set s \<Longrightarrow>
   \<forall>s \<in> set (normalize_segments a res xs). s \<noteq> [] \<and> CHR ''/'' \<notin> set s"
proof (induction a res xs rule: normalize_segments.induct)
  case (1 a res)
  then show ?case by simp
next
  case (2 a res s ss)
  have tail: "\<forall>s \<in> set ss. CHR ''/'' \<notin> set s" and head: "CHR ''/'' \<notin> set s"
    using 2(9) by simp_all
  show ?case
  proof (cases "s = [] \<or> s = ''.''")
    case True
    with 2(1) [OF True 2(8) tail] show ?thesis by simp
  next
    case plain: False
    show ?thesis
    proof (cases "s = ''..''")
      case up: True
      have dots: "\<forall>s \<in> set [''..'']. s \<noteq> [] \<and> CHR ''/'' \<notin> set s" by simp
      show ?thesis
      proof (cases res)
        case Nil
        show ?thesis
        proof (cases a)
          case True
          with plain up Nil 2(2) [OF plain up Nil True dots tail] show ?thesis by simp
        next
          case False
          with plain up Nil 2(3) [OF plain up Nil False _ tail] show ?thesis by simp
        qed
      next
        case (Cons r rs)
        have rs: "\<forall>s \<in> set rs. s \<noteq> [] \<and> CHR ''/'' \<notin> set s"
          using 2(8) Cons by simp
        show ?thesis
        proof (cases "r = ''..''")
          case dd: True
          show ?thesis
          proof (cases a)
            case True
            have "\<forall>s \<in> set (''..'' # res). s \<noteq> [] \<and> CHR ''/'' \<notin> set s"
              using 2(8) by simp
            with plain up Cons dd True 2(5) [OF plain up Cons _ True _ tail] show ?thesis
              by simp
          next
            case False
            with plain up Cons dd 2(6) [OF plain up Cons _ False 2(8) tail] show ?thesis
              by simp
          qed
        next
          case False
          with plain up Cons 2(4) [OF plain up Cons False rs tail] show ?thesis by simp
        qed
      qed
    next
      case False
      have "\<forall>x \<in> set (s # res). x \<noteq> [] \<and> CHR ''/'' \<notin> set x"
        using 2(8) head plain by simp
      with plain False 2(7) [OF plain False _ tail] show ?thesis by simp
    qed
  qed
qed

lemma join_slash_last:
  "ss \<noteq> [] \<Longrightarrow> \<forall>s \<in> set ss. s \<noteq> [] \<and> CHR ''/'' \<notin> set s \<Longrightarrow>
   join_slash ss \<noteq> [] \<and> last (join_slash ss) \<noteq> CHR ''/''"
proof (induction ss rule: join_slash.induct)
  case 1
  then show ?case by simp
next
  case (2 s)
  then show ?case by (auto dest: last_in_set)
next
  case (3 s v va)
  then show ?case by simp
qed

lemma posix_join_dot_slash:
  "posix_join root ''./'' = with_trailing_slash (posix_join root [])"
proof (cases "root = []")
  case True
  then show ?thesis
    by (simp add: posix_join_def posix_normalize_def posix_isAbsolute_def with_trailing_slash_def)
next
  case False
  define segs where "segs = normalize_segments (\<not> posix_isAbsolute root) [] (split_slash root)"
  have abs: "posix_isAbsolute (root @ ''/./'') = posix_isAbsolute root"
    using False by (cases root) (simp_all add: posix_isAbsolute_def)
  have "split_slash (root @ ''/./'') = split_slash root @ [''.'', []]"
    using split_slash_append [of root "''./''"] by simp
  then have same: "normalize_segments (\<not> posix_isAbsolute root) [] (split_slash (root @ ''/./''))
      = segs"
    by (simp add: normalize_segments_dot segs_def)
  have clean: "\<forall>s \<in> set segs. s \<noteq> [] \<and> CHR ''/'' \<notin> set s"
    unfolding segs_def by (rule normalize_segments_clean) (auto dest: split_slash_clean)
  have l: "posix_join root ''./'' =
      (if join_slash segs = [] then (if posix_isAbsolute root then ''/'' else ''./'')
       else (if posix_isAbsolute root then ''/'' else []) @ join_slash segs @ ''/'')"
    using False by (simp add: posix_join_def posix_normalize_def abs same Let_def)
  have r: "posix_join root [] =
      (if join_slash segs = []
       then (if posix_isAbsolute root then ''/''
             else if last root = CHR ''/'' then ''./'' else ''.'')
       else (if posix_isAbsolute root then ''/'' else []) @ join_slash segs
            @ (if last root = CHR ''/'' then ''/'' else []))"
    using False by (simp add: posix_join_def posix_normalize_def segs_def Let_def)
  show ?thesis
  proof (cases "join_slash segs = []")
    case True
    then show ?thesis by (simp add: l r with_trailing_slash_def)
  next
    case body: False
    then have "segs \<noteq> []" by auto
    with clean have "last (join_slash segs) \<noteq> CHR ''/''"
      using join_slash_last by blast
    with body show ?thesis by (simp add: l r with_trailing_slash_def)
  qed
qed

text \<open>
  Claim C10, as amended. The root that \<open>deployWorkspace\<close> computes in place equals the
  one of \<open>getFullDirPathFromTarget\<close> for every target whose \<open>dir\<close> is present and not
  empty, the exception of a missing workspace root included. When \<open>dir\<close> is absent or
  empty, \<open>deployWorkspace\<close> resolves the empty string and \<open>getFullDirPathFromTarget\<close>
  resolves \<open>./\<close>; under the POSIX rules of Node's \<open>path\<close> module the second result is
  the first with a slash at its end, and both raise the same exception when no
  workspace root is set.
\<close>

theorem targetDir_agreement:
  "(\<forall>d. dir target = Some d \<and> d \<noteq> [] \<longrightarrow>
      deployWorkspace_targetDir env target = getFullDirPathFromTarget env target)
   \<and> (dir target = None \<or> dir target = Some [] \<longrightarrow>
        deployWorkspace_targetDir env target =
          (if path_isAbsolute env [] then Inr [] else join_rootPath env [])
        \<and> getFullDirPathFromTarget env target =
          (if path_isAbsolute env ''./'' then Inr ''./'' else join_rootPath env ''./''))
   \<and> ((dir target = None \<or> dir target = Some [])
        \<and> path_isAbsolute env = posix_isAbsolute \<and> path_join env = posix_join \<longrightarrow>
        getFullDirPathFromTarget env target =
          map_sum id with_trailing_slash (deployWorkspace_targetDir env target))"
proof -
  have present: "\<forall>d. dir target = Some d \<and> d \<noteq> [] \<longrightarrow>
      deployWorkspace_targetDir env target = getFullDirPathFromTarget env target"
    by (auto simp add: deployWorkspace_targetDir_def getFullDirPathFromTarget_def
          toStringSafe_def Let_def)
  have absent: "dir target = None \<or> dir target = Some [] \<longrightarrow>
        deployWorkspace_targetDir env target =
          (if path_isAbsolute env [] then Inr [] else join_rootPath env [])
        \<and> getFullDirPathFromTarget env target =
          (if path_isAbsolute env ''./'' then Inr ''./'' else join_rootPath env ''./'')"
    by (auto simp add: deployWorkspace_targetDir_def getFullDirPathFromTarget_def
          toStringSafe_def Let_def)
  have posix: "(dir target = None \<or> dir target = Some [])
        \<and> path_isAbsolute env = posix_isAbsolute \<and> path_join env = posix_join \<longrightarrow>
        getFullDirPathFromTarget env target =
          map_sum id with_trailing_slash (deployWorkspace_targetDir env target)"
  proof
    assume a: "(dir target = None \<or> dir target = Some [])
        \<and> path_isAbsolute env = posix_isAbsolute \<and> path_join env = posix_join"
    with absent have "deployWorkspace_targetDir env target = join_rootPath env []"
      and "getFullDirPathFromTarget env target = join_rootPath env ''./''"
      by (simp_all add: posix_isAbsolute_def)
    with a show "getFullDirPathFromTarget env target =
        map_sum id with_trailing_slash (deployWorkspace_targetDir env target)"
      by (simp add: join_rootPath_def posix_join_dot_slash split: option.splits)
  qed
  from present absent posix show ?thesis by (intro conjI)
qed

theorem targetDir_agreement_witness:
  "dir sample_target = Some ''/tmp/dest'' \<and> ''/tmp/dest'' \<noteq> []
   \<and> deployWorkspace_targetDir sample_env sample_target
        = getFullDirPathFromTarget sample_env sample_target
   \<and> dir plain_target = None
   \<and> path_isAbsolute sample_env = posix_isAbsolute \<and> path_join sample_env = posix_join
   \<and> deployWorkspace_targetDir sample_env plain_target = Inr ''/ws''
   \<and> getFullDirPathFromTarget sample_env plain_target = Inr (with_trailing_slash ''/ws'')"
proof -
  have d: "dir sample_target = Some ''/tmp/dest''" "dir plain_target = None"
    by (simp_all add: sample_defs)
  have p: "path_isAbsolute sample_env = posix_isAbsolute" "path_join sample_env = posix_join"
    by (simp_all add: sample_defs)
  have j: "join_rootPath sample_env [] = Inr ''/ws''" "\<not> posix_isAbsolute []"
    by (simp_all add: sample_defs posix_defs join_rootPath_def)
  from targetDir_agreement [of sample_target sample_env] d(1)
  have same: "deployWorkspace_targetDir sample_env sample_target
      = getFullDirPathFromTarget sample_env sample_target"
    by simp
  note absent = targetDir_agreement [of plain_target sample_env]
  from absent d(2) p
  have inline: "deployWorkspace_targetDir sample_env plain_target = Inr ''/ws''"
    by (simp add: j)
  from absent d(2) p
  have "getFullDirPathFromTarget sample_env plain_target =
      map_sum id with_trailing_slash (deployWorkspace_targetDir sample_env plain_target)"
    by blast
  with inline have full: "getFullDirPathFromTarget sample_env plain_target =
      Inr (with_trailing_slash ''/ws'')"
    by simp
  show ?thesis using d p same inline full by simp
qed

text \<open>
  Claim C10 as stated fails for a target without \<open>dir\<close> in the workspace \<open>/ws\<close>: the
  two computations give \<open>/ws\<close> and \<open>/ws/\<close>.
\<close>

theorem targetDir_agreement_counterexample:
  "deployWorkspace_targetDir sample_env plain_target = Inr ''/ws''
   \<and> getFullDirPathFromTarget sample_env plain_target = Inr ''/ws/''
   \<and> deployWorkspace_targetDir sample_env plain_target
        \<noteq> getFullDirPathFromTarget sample_env plain_target"
  by (simp add: deployWorkspace_targetDir_def getFullDirPathFromTarget_def toStringSafe_def
        join_rootPath_def sample_defs posix_defs Let_def)

end
